theory Spec2Isabelle
  imports Complex_Main "HOL-Library.AList"
begin

section \<open>Cross-modal matching: \<^verbatim>\<open>src/app/creator-brand-match/page.tsx\<close>\<close>

text \<open>
  JavaScript numbers are IEEE 754 doubles. A finite double is modelled as the real number it
  denotes and \<open>\<plusminus>2 ^ 1024\<close> stands for \<open>\<plusminus>Infinity\<close>; \<^verbatim>\<open>NaN\<close> is not modelled. Comparisons,
  \<^verbatim>\<open>Math.max\<close> and the sign of a difference are exact on doubles. A product is rounded to the
  nearest double, ties to even: \<open>roundDouble\<close> below, which is also what a decimal literal
  such as \<^verbatim>\<open>1.15\<close> or \<^verbatim>\<open>0.8\<close> denotes.
\<close>

text \<open>Rounding to the nearest integer, ties to the even one.\<close>

definition roundHalfEven :: "real \<Rightarrow> int" where
  "roundHalfEven r =
     (let f = \<lfloor>r\<rfloor>; d = r - of_int f
      in if d < 1/2 then f else if d > 1/2 then f + 1 else if even f then f else f + 1)"

text \<open>The position of the leading bit of a positive integer.\<close>

function ilog2 :: "int \<Rightarrow> int" where
  "ilog2 n = (if n \<le> 1 then 0 else 1 + ilog2 (n div 2))"
  by pat_completeness auto
termination
  by (relation "measure nat") auto

text \<open>The exponent \<open>e\<close> with \<open>2 ^ e \<le> a < 2 ^ (e + 1)\<close>, and \<open>- 1022\<close>, the exponent of the
  subnormal doubles, for every smaller \<open>a\<close>.\<close>

definition binade :: "real \<Rightarrow> int" where
  "binade a = max (- 1022) (ilog2 \<lfloor>a * 2 ^ 1074\<rfloor> - 1074)"

text \<open>Overflow: a result of magnitude \<open>2 ^ 1024\<close> or more is \<open>\<plusminus>Infinity\<close>.\<close>

definition saturate :: "real \<Rightarrow> real" where
  "saturate y = (if \<bar>y\<bar> \<ge> 2 ^ 1024 then sgn y * 2 ^ 1024 else y)"

text \<open>The double nearest to a real number: 53 significant bits in the binade of the number.\<close>

definition roundDouble :: "real \<Rightarrow> real" where
  "roundDouble x =
     (let a = \<bar>x\<bar>;
          q = 2 powi (binade a - 52)
      in saturate (sgn x * of_int (roundHalfEven (a / q)) * q))"

text \<open>
  The type \<^verbatim>\<open>EmbeddingSearchResult\<close> is imported by the page from \<^verbatim>\<open>@/types\<close>; the record
  below has the fields that \<^verbatim>\<open>combineSearchResults\<close> reads and writes. Optional fields are
  options, \<open>None\<close> being \<^verbatim>\<open>undefined\<close>.
\<close>

record Metadata =
  tl_video_id :: "string option"

record EmbeddingSearchResult =
  score :: real
  metadata :: "Metadata option"
  textScore :: "real option"
  videoScore :: "real option"
  originalSource :: "string option"

datatype MatchLevel = High | Medium | Low

text \<open>\<^verbatim>\<open>getMatchLevel(score, source?)\<close>, lines 487-500.\<close>

definition getMatchLevel :: "real \<Rightarrow> string option \<Rightarrow> MatchLevel" where
  "getMatchLevel sc source =
     (if source = Some ''BOTH'' then High
      else if sc \<ge> 1 then High
      else if sc \<ge> 0.5 then Medium
      else Low)"

text \<open>\<^verbatim>\<open>getMatchLevelPriority(level)\<close>, lines 503-514; the \<^verbatim>\<open>default\<close> branch cannot be
  reached from a value of the union type.\<close>

fun getMatchLevelPriority :: "MatchLevel \<Rightarrow> int" where
  "getMatchLevelPriority High = 3"
| "getMatchLevelPriority Medium = 2"
| "getMatchLevelPriority Low = 1"

text \<open>\<^verbatim>\<open>result.metadata?.tl_video_id\<close>.\<close>

definition videoIdOf :: "EmbeddingSearchResult \<Rightarrow> string option" where
  "videoIdOf r = (case metadata r of None \<Rightarrow> None | Some m \<Rightarrow> tl_video_id m)"

text \<open>Truthiness of an optional string: \<^verbatim>\<open>undefined\<close> and the empty string are falsy.\<close>

definition truthyStr :: "string option \<Rightarrow> bool" where
  "truthyStr s = (case s of None \<Rightarrow> False | Some v \<Rightarrow> v \<noteq> [])"

text \<open>\<^verbatim>\<open>x || 0\<close> on an optional number: \<^verbatim>\<open>undefined\<close> and \<^verbatim>\<open>0\<close> are falsy.\<close>

definition orZero :: "real option \<Rightarrow> real" where
  "orZero x = (case x of None \<Rightarrow> 0 | Some v \<Rightarrow> if v = 0 then 0 else v)"

text \<open>
  \<^verbatim>\<open>resultMap\<close> is a JavaScript \<^verbatim>\<open>Map\<close>: it iterates in insertion order, and \<^verbatim>\<open>set\<close> on a
  key that is present replaces the value where it stands. This is an association list under
  \<^const>\<open>AList.update\<close>; \<^verbatim>\<open>has\<close>/\<^verbatim>\<open>get\<close> are \<^const>\<open>map_of\<close>.
\<close>

type_synonym ResultMap = "(string \<times> EmbeddingSearchResult) list"

text \<open>The body of \<^verbatim>\<open>textResults.forEach\<close>, lines 524-533.\<close>

definition textStep :: "ResultMap \<Rightarrow> EmbeddingSearchResult \<Rightarrow> ResultMap" where
  "textStep resultMap result =
     (case videoIdOf result of
        None \<Rightarrow> resultMap
      | Some videoId \<Rightarrow>
          if videoId \<noteq> [] then
            AList.update videoId
              (result\<lparr>textScore := Some (score result), originalSource := Some ''TEXT''\<rparr>)
              resultMap
          else resultMap)"

text \<open>The body of \<^verbatim>\<open>videoResults.forEach\<close>, lines 536-565.\<close>

definition videoStep :: "ResultMap \<Rightarrow> EmbeddingSearchResult \<Rightarrow> ResultMap" where
  "videoStep resultMap result =
     (case videoIdOf result of
        None \<Rightarrow> resultMap
      | Some videoId \<Rightarrow>
          if videoId = [] then resultMap
          else
            (case map_of resultMap videoId of
               Some existingResult \<Rightarrow>
                 (let textScore' = orZero (textScore existingResult);
                      videoScore' = score result;
                      maxScore = max textScore' videoScore';
                      boostedScore = roundDouble (maxScore * roundDouble 1.15)
                  in AList.update videoId
                       (existingResult\<lparr>score := boostedScore,
                                       videoScore := Some videoScore',
                                       textScore := Some textScore',
                                       originalSource := Some ''BOTH''\<rparr>)
                       resultMap)
             | None \<Rightarrow>
                 AList.update videoId
                   (result\<lparr>videoScore := Some (score result), originalSource := Some ''VIDEO''\<rparr>)
                   resultMap))"

text \<open>The comparator handed to \<^verbatim>\<open>sort\<close>, lines 568-582.\<close>

definition compareMatches :: "EmbeddingSearchResult \<Rightarrow> EmbeddingSearchResult \<Rightarrow> real" where
  "compareMatches a b =
     (let levelA = getMatchLevel (score a) (originalSource a);
          levelB = getMatchLevel (score b) (originalSource b);
          levelPriorityA = getMatchLevelPriority levelA;
          levelPriorityB = getMatchLevelPriority levelB
      in if levelPriorityA \<noteq> levelPriorityB then real_of_int (levelPriorityB - levelPriorityA)
         else score b - score a)"

text \<open>
  \<^verbatim>\<open>Array.prototype.sort\<close> with a comparator is a stable sort: \<open>a\<close> stays before \<open>b\<close>
  unless the comparator is positive on \<open>(a, b)\<close>. With a comparator that is a total preorder
  every stable sort returns the same list, so the insertion sort below stands for the engine's.
\<close>

fun insertBy :: "('a \<Rightarrow> 'a \<Rightarrow> real) \<Rightarrow> 'a \<Rightarrow> 'a list \<Rightarrow> 'a list" where
  "insertBy cmp x [] = [x]"
| "insertBy cmp x (y # ys) = (if cmp x y \<le> 0 then x # y # ys else y # insertBy cmp x ys)"

fun sortBy :: "('a \<Rightarrow> 'a \<Rightarrow> real) \<Rightarrow> 'a list \<Rightarrow> 'a list" where
  "sortBy cmp [] = []"
| "sortBy cmp (x # xs) = insertBy cmp x (sortBy cmp xs)"

text \<open>\<^verbatim>\<open>combineSearchResults(textResults, videoResults)\<close>, lines 517-583.\<close>

definition buildResultMap ::
  "EmbeddingSearchResult list \<Rightarrow> EmbeddingSearchResult list \<Rightarrow> ResultMap" where
  "buildResultMap textResults videoResults =
     foldl videoStep (foldl textStep [] textResults) videoResults"

definition combineSearchResults ::
  "EmbeddingSearchResult list \<Rightarrow> EmbeddingSearchResult list \<Rightarrow> EmbeddingSearchResult list" where
  "combineSearchResults textResults videoResults =
     sortBy compareMatches (map snd (buildResultMap textResults videoResults))"

text \<open>An input entry as the similarity searches deliver it: an id and a score.\<close>

definition mkResult :: "string \<Rightarrow> real \<Rightarrow> EmbeddingSearchResult" where
  "mkResult vid sc =
     \<lparr>score = sc, metadata = Some \<lparr>tl_video_id = Some vid\<rparr>,
      textScore = None, videoScore = None, originalSource = None\<rparr>"

text \<open>Whether an input entry carries a usable id: the guards \<^verbatim>\<open>if (videoId)\<close> and
  \<^verbatim>\<open>if (!videoId) return\<close>.\<close>

definition hasVideoId :: "EmbeddingSearchResult \<Rightarrow> bool" where
  "hasVideoId r = truthyStr (videoIdOf r)"

text \<open>Every entry of the map sits under its own, non-empty id.\<close>

definition keyed :: "ResultMap \<Rightarrow> bool" where
  "keyed m = list_all (\<lambda>(k, e). k \<noteq> [] \<and> videoIdOf e = Some k) m"

text \<open>The tier of an entry: the level that the comparator computes for it.\<close>

definition tierOf :: "EmbeddingSearchResult \<Rightarrow> MatchLevel" where
  "tierOf e = getMatchLevel (score e) (originalSource e)"

text \<open>The tier priorities in the words of the specification: high = 3, medium = 2,
  low = 1. This is not read off the code; the code's \<open>getMatchLevelPriority\<close> is compared
  with it.\<close>

fun specTierPriority :: "MatchLevel \<Rightarrow> nat" where
  "specTierPriority High = 3"
| "specTierPriority Medium = 2"
| "specTierPriority Low = 1"

text \<open>The order of the specification: higher tier priority first, and within a tier the
  higher score first.\<close>

definition rankedBefore :: "EmbeddingSearchResult \<Rightarrow> EmbeddingSearchResult \<Rightarrow> bool" where
  "rankedBefore a b =
     (specTierPriority (tierOf a) > specTierPriority (tierOf b) \<or>
      (specTierPriority (tierOf a) = specTierPriority (tierOf b) \<and> score a \<ge> score b))"

subsection \<open>\<^verbatim>\<open>handleFindMatches\<close>, lines 420-484\<close>

text \<open>
  The three backend calls are imported from \<^verbatim>\<open>@/hooks/apiHooks\<close>; they are parameters of the
  model, each returning a value or throwing. The index ids and the target videos are fixed by
  the page and are part of these parameters. The list of calls made is kept beside the state,
  in the order the handler makes them.
\<close>

datatype 'a outcome = Throws | Returns 'a

record ReadinessState =
  processedCount :: nat
  totalCount :: nat
  success :: bool

record MatchState =
  selectedVideoId :: "string option"
  isAnalyzing :: bool
  similarResults :: "EmbeddingSearchResult list"
  isLoadingEmbeddings :: bool
  isProcessingTargetEmbeddings :: bool
  targetEmbeddingsProgress :: "nat \<times> nat"
  embeddingsReady :: bool

datatype Call =
  CheckAndEnsureEmbeddings
| TextToVideoEmbeddingSearch
| VideoToVideoEmbeddingSearch
| CombineSearchResults

definition handleFindMatches ::
  "(string \<Rightarrow> ReadinessState outcome) \<Rightarrow>
   (string \<Rightarrow> EmbeddingSearchResult list outcome) \<Rightarrow>
   (string \<Rightarrow> EmbeddingSearchResult list outcome) \<Rightarrow>
   MatchState \<Rightarrow> MatchState \<times> Call list" where
  "handleFindMatches checkAndEnsureEmbeddings textToVideoEmbeddingSearch
       videoToVideoEmbeddingSearch st =
     (if \<not> truthyStr (selectedVideoId st) then (st, [])
      else
        (let vid = (case selectedVideoId st of Some v \<Rightarrow> v | None \<Rightarrow> []);
             st1 = st\<lparr>isAnalyzing := True, similarResults := [],
                       isLoadingEmbeddings := True, isProcessingTargetEmbeddings := True\<rparr>
         in case checkAndEnsureEmbeddings vid of
              Throws \<Rightarrow> (st1\<lparr>isAnalyzing := False\<rparr>, [CheckAndEnsureEmbeddings])
            | Returns embeddingResult \<Rightarrow>
                (let st2 = st1\<lparr>targetEmbeddingsProgress :=
                                   (processedCount embeddingResult, totalCount embeddingResult),
                                 embeddingsReady := success embeddingResult,
                                 isLoadingEmbeddings := False,
                                 isProcessingTargetEmbeddings := False\<rparr>
                 in if \<not> success embeddingResult
                    then (st2\<lparr>isAnalyzing := False\<rparr>, [CheckAndEnsureEmbeddings])
                    else
                      (case (textToVideoEmbeddingSearch vid, videoToVideoEmbeddingSearch vid) of
                         (Returns textResults, Returns videoResults) \<Rightarrow>
                           (st2\<lparr>similarResults := combineSearchResults textResults videoResults,
                                 isAnalyzing := False\<rparr>,
                            [CheckAndEnsureEmbeddings, TextToVideoEmbeddingSearch,
                             VideoToVideoEmbeddingSearch, CombineSearchResults])
                       | _ \<Rightarrow>
                           (st2\<lparr>isAnalyzing := False\<rparr>,
                            [CheckAndEnsureEmbeddings, TextToVideoEmbeddingSearch,
                             VideoToVideoEmbeddingSearch])))))"

section \<open>Federated search: \<^verbatim>\<open>src/app/semantic-search/page.tsx\<close>\<close>

datatype FormatFilter = vertical | horizontal

text \<open>Of \<^verbatim>\<open>VideoDetails\<close> the search flow reads the two dimensions only.\<close>

record SystemMetadata =
  width :: "real option"
  height :: "real option"

record VideoDetails =
  system_metadata :: "SystemMetadata option"

text \<open>\<^verbatim>\<open>SearchResult\<close>, lines 33-43; \<open>endTime\<close> is the field \<^verbatim>\<open>end\<close> and \<open>hitScore\<close> the
  field \<^verbatim>\<open>score\<close>.\<close>

record SearchResult =
  video_id :: string
  thumbnail_url :: string
  start :: real
  endTime :: real
  confidence :: string
  hitScore :: real
  index_id :: string
  videoDetails :: "VideoDetails option"
  format :: "FormatFilter option"

text \<open>Truthiness of an optional number: \<^verbatim>\<open>undefined\<close> and \<^verbatim>\<open>0\<close> are falsy.\<close>

definition truthyNum :: "real option \<Rightarrow> bool" where
  "truthyNum x = (case x of None \<Rightarrow> False | Some v \<Rightarrow> v \<noteq> 0)"

text \<open>The format of a hit, lines 643-653 of \<^verbatim>\<open>fetchVideoDetailsForResults\<close>.\<close>

definition formatOf :: "VideoDetails \<Rightarrow> FormatFilter option" where
  "formatOf details =
     (case system_metadata details of
        None \<Rightarrow> None
      | Some sm \<Rightarrow>
          (case (width sm, height sm) of
             (Some w, Some h) \<Rightarrow>
               if truthyNum (Some w) \<and> truthyNum (Some h)
               then Some (if w \<ge> h then horizontal else vertical)
               else None
           | _ \<Rightarrow> None))"

text \<open>
  The callback of \<^verbatim>\<open>results.map\<close> in \<^verbatim>\<open>fetchVideoDetailsForResults\<close>, lines 634-663.
  \<^verbatim>\<open>fetchVideoDetails\<close> is a backend call, a parameter here; \<open>None\<close> is the call throwing, and
  then the hit is returned as it came.
\<close>

definition withDetails ::
  "(string \<Rightarrow> string \<Rightarrow> VideoDetails option) \<Rightarrow> SearchResult \<Rightarrow> SearchResult" where
  "withDetails fetchVideoDetails result =
     (case fetchVideoDetails (video_id result) (index_id result) of
        Some details \<Rightarrow> result\<lparr>videoDetails := Some details, format := formatOf details\<rparr>
      | None \<Rightarrow> result)"

text \<open>The identity key \<^verbatim>\<open>`${item.video_id}_${item.start}_${item.end}`\<close>. The rendering of a
  number has no underscore, so the string determines the three components and the key is
  the triple.\<close>

definition itemKey :: "SearchResult \<Rightarrow> string \<times> real \<times> real" where
  "itemKey item = (video_id item, start item, endTime item)"

text \<open>The updater handed to \<^verbatim>\<open>setEnhancedResults\<close> in \<^verbatim>\<open>loadMoreResults\<close>, lines 288-302.\<close>

definition mergeResults :: "SearchResult list \<Rightarrow> SearchResult list \<Rightarrow> SearchResult list" where
  "mergeResults prev newResultsWithDetails =
     (let existingIds = set (map itemKey prev);
          uniqueNewResults = filter (\<lambda>item. itemKey item \<notin> existingIds) newResultsWithDetails
      in prev @ uniqueNewResults)"

subsection \<open>Session state and the two search rounds\<close>

text \<open>
  The component state that the search handlers write. A token table is a JavaScript object:
  an association list from index id to token, \<open>None\<close> being \<^verbatim>\<open>null\<close>; assignment to a key is
  \<^const>\<open>AList.update\<close>.
\<close>

type_synonym TokenTable = "(string \<times> string option) list"

record TotalResults =
  totalAll :: nat
  totalBrands :: nat
  totalCreators :: nat

record SessionState =
  enhancedResults :: "SearchResult list"
  totalResults :: TotalResults
  hasMoreResults :: bool
  nextPageTokens :: TokenTable
  isLoadingMore :: bool
  currentPage :: nat
  isSearching :: bool
  hasSearched :: bool

text \<open>\<^verbatim>\<open>process.env.NEXT_PUBLIC_BRAND_INDEX_ID\<close> and \<^verbatim>\<open>..._CREATOR_INDEX_ID\<close>; an unset variable
  is \<open>None\<close>.\<close>

record Env =
  brandIndexId :: "string option"
  creatorIndexId :: "string option"

text \<open>An optional id used as a property key: \<^verbatim>\<open>undefined\<close> becomes the key \<^verbatim>\<open>"undefined"\<close>.\<close>

definition propertyKey :: "string option \<Rightarrow> string" where
  "propertyKey k = (case k of None \<Rightarrow> ''undefined'' | Some s \<Rightarrow> s)"

text \<open>\<^verbatim>\<open>fetchVideoDetailsForResults(results, isLoadMore)\<close>, lines 628-676. Each callback catches
  its own failure, so the outer \<^verbatim>\<open>catch\<close> (returning \<^verbatim>\<open>null\<close>) is not reached.\<close>

definition fetchVideoDetailsForResults ::
  "(string \<Rightarrow> string \<Rightarrow> VideoDetails option) \<Rightarrow> SearchResult list \<Rightarrow> bool \<Rightarrow>
   SessionState \<Rightarrow> SearchResult list \<times> SessionState" where
  "fetchVideoDetailsForResults fetchVideoDetails results isLoadMore st =
     (let updatedResults = map (withDetails fetchVideoDetails) results
      in (updatedResults,
          if \<not> isLoadMore then st\<lparr>enhancedResults := updatedResults\<rparr> else st))"

text \<open>The body of the reply to \<^verbatim>\<open>POST /api/search/text\<close>, as far as the handler reads it.\<close>

record PageInfoEntry =
  total_results :: "nat option"

record SearchResponse =
  respData :: "SearchResult list option"
  pageInfoByIndex :: "(string \<times> PageInfoEntry) list option"
  respNextPageTokens :: "TokenTable option"
  hasMore :: "bool option"

text \<open>\<^verbatim>\<open>pageInfo[id!]?.total_results || 0\<close>.\<close>

definition totalFor :: "(string \<times> PageInfoEntry) list \<Rightarrow> string option \<Rightarrow> nat" where
  "totalFor pageInfo indexId =
     (case map_of pageInfo (propertyKey indexId) of
        None \<Rightarrow> 0
      | Some entry \<Rightarrow> (case total_results entry of None \<Rightarrow> 0 | Some n \<Rightarrow> n))"

text \<open>
  The search query is a JavaScript string, a sequence of UTF-16 code units, here a list of
  numbers. \<^verbatim>\<open>trim()\<close> strips the white space and the line terminators of ECMAScript from both
  ends: TAB, LF, VT, FF, CR, SPACE, NO-BREAK SPACE, U+1680, U+2000 to U+200A, U+2028, U+2029,
  U+202F, U+205F, U+3000 and U+FEFF, each a single code unit.
\<close>

type_synonym JsString = "nat list"

definition isWhiteSpace :: "nat \<Rightarrow> bool" where
  "isWhiteSpace u =
     (u \<in> set [0x09, 0x0A, 0x0B, 0x0C, 0x0D, 0x20, 0xA0, 0x1680,
               0x2028, 0x2029, 0x202F, 0x205F, 0x3000, 0xFEFF]
      \<or> (0x2000 \<le> u \<and> u \<le> 0x200A))"

text \<open>\<^verbatim>\<open>!searchQuery.trim()\<close>: nothing is left of the query once it is trimmed.\<close>

definition isBlank :: "JsString \<Rightarrow> bool" where
  "isBlank q = list_all isWhiteSpace q"

definition itemsPerPage :: nat where
  "itemsPerPage = 24"

text \<open>\<^verbatim>\<open>handleTextSearch\<close>, lines 521-625. \<open>post\<close> is the request to the search route; its
  reply body may be missing. The \<^verbatim>\<open>catch\<close> branch sets the error banner only, which is not
  part of this state.\<close>

definition handleTextSearch ::
  "Env \<Rightarrow> (JsString \<Rightarrow> SearchResponse option outcome) \<Rightarrow>
   (string \<Rightarrow> string \<Rightarrow> VideoDetails option) \<Rightarrow> JsString \<Rightarrow> SessionState \<Rightarrow> SessionState" where
  "handleTextSearch env post fetchVideoDetails searchQuery st =
     (if isBlank searchQuery then st
      else
        (let st1 = st\<lparr>isSearching := True, enhancedResults := [], hasSearched := True\<rparr>;
             noData = st1\<lparr>enhancedResults := [],
                          totalResults := \<lparr>totalAll = 0, totalBrands = 0, totalCreators = 0\<rparr>,
                          hasMoreResults := False,
                          isSearching := False\<rparr>
         in case post searchQuery of
              Throws \<Rightarrow> st1\<lparr>isSearching := False\<rparr>
            | Returns None \<Rightarrow> noData
            | Returns (Some r) \<Rightarrow>
                (case respData r of
                   None \<Rightarrow> noData
                 | Some allResults \<Rightarrow>
                     (let brandResults =
                            filter (\<lambda>x. Some (index_id x) = brandIndexId env) allResults;
                          creatorResults =
                            filter (\<lambda>x. Some (index_id x) \<noteq> brandIndexId env \<and>
                                         Some (index_id x) = creatorIndexId env) allResults;
                          tb = (case pageInfoByIndex r of
                                  None \<Rightarrow> 0 | Some pinfo \<Rightarrow> totalFor pinfo (brandIndexId env));
                          tc = (case pageInfoByIndex r of
                                  None \<Rightarrow> 0 | Some pinfo \<Rightarrow> totalFor pinfo (creatorIndexId env));
                          st2 = st1\<lparr>totalResults :=
                                      \<lparr>totalAll = tb + tc, totalBrands = tb, totalCreators = tc\<rparr>,
                                    enhancedResults := allResults,
                                    currentPage := 1,
                                    nextPageTokens :=
                                      (case respNextPageTokens r of None \<Rightarrow> [] | Some t \<Rightarrow> t)\<rparr>;
                          serverHasMore = hasMore r;
                          clientHasMore =
                            (length allResults \<ge> itemsPerPage \<and>
                             (length brandResults = itemsPerPage \<or>
                              length creatorResults = itemsPerPage));
                          st3 = st2\<lparr>hasMoreResults :=
                                      (case serverHasMore of Some b \<Rightarrow> b | None \<Rightarrow> clientHasMore)\<rparr>;
                          st4 = snd (fetchVideoDetailsForResults fetchVideoDetails allResults False st3)
                      in st4\<lparr>isSearching := False\<rparr>))))"

text \<open>
  \<^verbatim>\<open>applyCropAndSearch\<close>, lines 799-903, the initial round of a search by image. The choice of
  the file, lines 800-835, is a parameter: \<open>None\<close> is one of its early returns (no cropped
  image, no file and no URL, or the URL cannot be fetched), and these leave the state of the
  search alone. \<open>postImage\<close> is the request to \<^verbatim>\<open>/api/search/image\<close>; of its reply the handler
  reads the hits and the totals. Neither branch writes \<open>hasMoreResults\<close>.
\<close>

definition applyCropAndSearch ::
  "Env \<Rightarrow> ('file \<Rightarrow> SearchResponse option outcome) \<Rightarrow>
   (string \<Rightarrow> string \<Rightarrow> VideoDetails option) \<Rightarrow> 'file option \<Rightarrow> SessionState \<Rightarrow> SessionState" where
  "applyCropAndSearch env postImage fetchVideoDetails fileToSearch st =
     (case fileToSearch of
        None \<Rightarrow> st
      | Some img \<Rightarrow>
          (let st1 = st\<lparr>isSearching := True, enhancedResults := [], hasSearched := True,
                        nextPageTokens := []\<rparr>
           in case postImage img of
                Throws \<Rightarrow> st1\<lparr>isSearching := False\<rparr>
              | Returns None \<Rightarrow> st1\<lparr>isSearching := False\<rparr>
              | Returns (Some r) \<Rightarrow>
                  (case respData r of
                     None \<Rightarrow> st1\<lparr>isSearching := False\<rparr>
                   | Some allResults \<Rightarrow>
                       (let tb = (case pageInfoByIndex r of
                                    None \<Rightarrow> 0
                                  | Some pinfo \<Rightarrow> totalFor pinfo (brandIndexId env));
                            tc = (case pageInfoByIndex r of
                                    None \<Rightarrow> 0
                                  | Some pinfo \<Rightarrow> totalFor pinfo (creatorIndexId env));
                            st2 = st1\<lparr>totalResults :=
                                        \<lparr>totalAll = tb + tc, totalBrands = tb,
                                         totalCreators = tc\<rparr>,
                                      enhancedResults := allResults\<rparr>;
                            st3 = snd (fetchVideoDetailsForResults fetchVideoDetails
                                         allResults False st2)
                        in st3\<lparr>isSearching := False\<rparr>))))"

text \<open>The body of the reply to \<^verbatim>\<open>GET /api/search/byToken\<close>.\<close>

record TokenPageInfo =
  next_page_token :: "string option"

record TokenResponse =
  tokData :: "SearchResult list option"
  pageInfo :: "TokenPageInfo option"

text \<open>\<^verbatim>\<open>data.pageInfo?.next_page_token || null\<close>.\<close>

definition nextTokenOf :: "TokenResponse \<Rightarrow> string option" where
  "nextTokenOf d =
     (case pageInfo d of
        None \<Rightarrow> None
      | Some pinfo \<Rightarrow> if truthyStr (next_page_token pinfo) then next_page_token pinfo else None)"

text \<open>The token read from the table for an index, \<^verbatim>\<open>nextPageTokens[id!]\<close>, when it is truthy.\<close>

definition tokenFor :: "TokenTable \<Rightarrow> string option \<Rightarrow> string option" where
  "tokenFor tokens indexId =
     (case map_of tokens (propertyKey indexId) of
        Some (Some t) \<Rightarrow> if t \<noteq> [] then Some t else None
      | _ \<Rightarrow> None)"

text \<open>The body of \<^verbatim>\<open>responses.forEach\<close>, lines 273-278, on the pair of new results and new
  tokens.\<close>

definition collectResponse ::
  "SearchResult list \<times> TokenTable \<Rightarrow> string option \<times> TokenResponse option \<Rightarrow>
   SearchResult list \<times> TokenTable" where
  "collectResponse acc resp =
     (case resp of (indexId, body) \<Rightarrow>
        (case (case body of None \<Rightarrow> None | Some d \<Rightarrow> tokData d) of
           None \<Rightarrow> acc
         | Some hits \<Rightarrow>
             if truthyStr indexId
             then (fst acc @ hits,
                   AList.update (propertyKey indexId)
                     (case body of None \<Rightarrow> None | Some d \<Rightarrow> nextTokenOf d) (snd acc))
             else acc))"

text \<open>The requests of one continuation round, lines 236-262, already awaited: one per index
  whose token is truthy, brand first.\<close>

definition continuationRequests ::
  "Env \<Rightarrow> (string \<Rightarrow> string \<Rightarrow> TokenResponse option outcome) \<Rightarrow> TokenTable \<Rightarrow>
   (string option \<times> TokenResponse option outcome) list" where
  "continuationRequests env byToken tokens =
     (case tokenFor tokens (brandIndexId env) of
        None \<Rightarrow> []
      | Some brandToken \<Rightarrow>
          [(brandIndexId env, byToken brandToken (propertyKey (brandIndexId env)))])
     @
     (case tokenFor tokens (creatorIndexId env) of
        None \<Rightarrow> []
      | Some creatorToken \<Rightarrow>
          [(creatorIndexId env, byToken creatorToken (propertyKey (creatorIndexId env)))])"

text \<open>\<^verbatim>\<open>Promise.all\<close>: the replies in order, or nothing when one of them throws.\<close>

fun joinAll :: "('k \<times> 'a outcome) list \<Rightarrow> ('k \<times> 'a) list option" where
  "joinAll [] = Some []"
| "joinAll ((k, Throws) # rest) = None"
| "joinAll ((k, Returns a) # rest) =
     (case joinAll rest of None \<Rightarrow> None | Some xs \<Rightarrow> Some ((k, a) # xs))"

text \<open>\<^verbatim>\<open>Object.values(newTokens).some((token) => token !== null)\<close>.\<close>

definition someTokenLeft :: "TokenTable \<Rightarrow> bool" where
  "someTokenLeft tokens = list_ex (\<lambda>token. token \<noteq> None) (map snd tokens)"

text \<open>\<^verbatim>\<open>loadMoreResults\<close>, lines 222-318.\<close>

definition loadMoreResults ::
  "Env \<Rightarrow> (string \<Rightarrow> string \<Rightarrow> TokenResponse option outcome) \<Rightarrow>
   (string \<Rightarrow> string \<Rightarrow> VideoDetails option) \<Rightarrow> SessionState \<Rightarrow> SessionState" where
  "loadMoreResults env byToken fetchVideoDetails st =
     (if \<not> hasMoreResults st \<or> isLoadingMore st then st
      else
        (let st1 = st\<lparr>isLoadingMore := True\<rparr>;
             requests = continuationRequests env byToken (nextPageTokens st)
         in if length requests = 0
            then st1\<lparr>hasMoreResults := False, isLoadingMore := False\<rparr>
            else
              (case joinAll requests of
                 None \<Rightarrow> st1\<lparr>isLoadingMore := False\<rparr>
               | Some responses \<Rightarrow>
                   (let collected = foldl collectResponse ([], nextPageTokens st) responses;
                        newResults = fst collected;
                        newTokens = snd collected;
                        newResultsWithDetails =
                          fst (fetchVideoDetailsForResults fetchVideoDetails newResults True st1)
                    in if length newResultsWithDetails > 0
                       then st1\<lparr>enhancedResults :=
                                  mergeResults (enhancedResults st1) newResultsWithDetails,
                                nextPageTokens := newTokens,
                                currentPage := currentPage st1 + 1,
                                hasMoreResults := someTokenLeft newTokens,
                                isLoadingMore := False\<rparr>
                       else st1\<lparr>hasMoreResults := False, isLoadingMore := False\<rparr>))))"

subsection \<open>The filtered view, \<^verbatim>\<open>filteredResults\<close>, lines 689-746\<close>

text \<open>
  \<^verbatim>\<open>filter\<close> allocates a new array, \<^verbatim>\<open>sort\<close> sorts the array it is called on in place and
  returns it. Arrays therefore live in a store, a list of cells addressed by position; a
  reference is a position.
\<close>

type_synonym Store = "SearchResult list list"

definition readArray :: "Store \<Rightarrow> nat \<Rightarrow> SearchResult list" where
  "readArray store r = (if r < length store then store ! r else [])"

definition arrayFilter :: "(SearchResult \<Rightarrow> bool) \<Rightarrow> nat \<Rightarrow> Store \<Rightarrow> nat \<times> Store" where
  "arrayFilter p r store = (length store, store @ [filter p (readArray store r)])"

definition arraySort ::
  "(SearchResult \<Rightarrow> SearchResult \<Rightarrow> real) \<Rightarrow> nat \<Rightarrow> Store \<Rightarrow> nat \<times> Store" where
  "arraySort cmp r store = (r, store[r := sortBy cmp (readArray store r)])"

datatype ActiveFilter = All | Brands | Creators

text \<open>\<^verbatim>\<open>confidence.toLowerCase()\<close>, on ASCII letters.\<close>

definition toLowerChar :: "char \<Rightarrow> char" where
  "toLowerChar c =
     (case map_of (zip ''ABCDEFGHIJKLMNOPQRSTUVWXYZ'' ''abcdefghijklmnopqrstuvwxyz'') c of
        Some l \<Rightarrow> l
      | None \<Rightarrow> c)"

definition toLowerCase :: "string \<Rightarrow> string" where
  "toLowerCase s = map toLowerChar s"

definition getConfidencePriority :: "string \<Rightarrow> int" where
  "getConfidencePriority c =
     (let l = toLowerCase c
      in if l = ''high'' then 3
         else if l = ''medium'' then 2
         else if l = ''low'' then 1
         else 0)"

text \<open>The comparator of the final \<^verbatim>\<open>sort\<close>, lines 720-745.\<close>

definition compareHits :: "SearchResult \<Rightarrow> SearchResult \<Rightarrow> real" where
  "compareHits a b =
     (let confidenceDiff =
            getConfidencePriority (confidence b) - getConfidencePriority (confidence a)
      in if confidenceDiff = 0
         then orZero (Some (hitScore b)) - orZero (Some (hitScore a))
         else real_of_int confidenceDiff)"

text \<open>The predicate of the format filter, lines 712-715.\<close>

definition matchesFormat :: "FormatFilter list \<Rightarrow> SearchResult \<Rightarrow> bool" where
  "matchesFormat formatFilters result =
     (case format result of None \<Rightarrow> False | Some f \<Rightarrow> f \<in> set formatFilters)"

text \<open>The predicate of the index filter, lines 697-702.\<close>

definition matchesIndex :: "Env \<Rightarrow> ActiveFilter \<Rightarrow> SearchResult \<Rightarrow> bool" where
  "matchesIndex env activeFilter result =
     (if activeFilter = Brands then Some (index_id result) = brandIndexId env
      else if activeFilter = Creators then Some (index_id result) = creatorIndexId env
      else True)"

text \<open>The memoised computation: \<open>enhancedResults\<close> is the reference held by the state; the
  result is the reference of the view and the store afterwards.\<close>

definition filteredResults ::
  "Env \<Rightarrow> ActiveFilter \<Rightarrow> FormatFilter list \<Rightarrow> nat \<Rightarrow> Store \<Rightarrow> nat \<times> Store" where
  "filteredResults env activeFilter activeFilters enhancedResultsRef store =
     (let (results1, store1) =
            (if activeFilter \<noteq> All
             then arrayFilter (matchesIndex env activeFilter) enhancedResultsRef store
             else (enhancedResultsRef, store));
          (results2, store2) =
            (if length activeFilters > 0
             then
               (let formatFilters =
                      filter (\<lambda>f. f = vertical \<or> f = horizontal) activeFilters
                in if length formatFilters > 0
                   then arrayFilter (matchesFormat formatFilters) results1 store1
                   else (results1, store1))
             else (results1, store1))
      in arraySort compareHits results2 store2)"

text \<open>A hit as a partition delivers it, before its details are fetched.\<close>

definition mkHit :: "string \<Rightarrow> real \<Rightarrow> real \<Rightarrow> string \<Rightarrow> real \<Rightarrow> string \<Rightarrow> SearchResult" where
  "mkHit vid s e conf sc idx =
     \<lparr>video_id = vid, thumbnail_url = [], start = s, endTime = e, confidence = conf,
      hitScore = sc, index_id = idx, videoDetails = None, format = None\<rparr>"

text \<open>Details that carry the two dimensions.\<close>

definition mkDetails :: "real \<Rightarrow> real \<Rightarrow> VideoDetails" where
  "mkDetails w h = \<lparr>system_metadata = Some \<lparr>width = Some w, height = Some h\<rparr>\<rparr>"

text \<open>What one continuation round delivers once every request has returned: the hits and
  the token table of lines 269-278; \<open>None\<close> when a request throws.\<close>

definition roundOutcome ::
  "Env \<Rightarrow> (string \<Rightarrow> string \<Rightarrow> TokenResponse option outcome) \<Rightarrow> SessionState \<Rightarrow>
   (SearchResult list \<times> TokenTable) option" where
  "roundOutcome env byToken st =
     (case joinAll (continuationRequests env byToken (nextPageTokens st)) of
        None \<Rightarrow> None
      | Some responses \<Rightarrow> Some (foldl collectResponse ([], nextPageTokens st) responses))"

text \<open>The store cell that a computation of \<open>filteredResults\<close> returns as the view.\<close>

definition viewOf ::
  "Env \<Rightarrow> ActiveFilter \<Rightarrow> FormatFilter list \<Rightarrow> nat \<Rightarrow> Store \<Rightarrow> SearchResult list" where
  "viewOf env activeFilter activeFilters r store =
     (case filteredResults env activeFilter activeFilters r store of
        (r', store') \<Rightarrow> readArray store' r')"

text \<open>The state's array after a computation of \<open>filteredResults\<close>.\<close>

definition enhancedResultsAfter ::
  "Env \<Rightarrow> ActiveFilter \<Rightarrow> FormatFilter list \<Rightarrow> nat \<Rightarrow> Store \<Rightarrow> SearchResult list" where
  "enhancedResultsAfter env activeFilter activeFilters r store =
     readArray (snd (filteredResults env activeFilter activeFilters r store)) r"

subsection \<open>Sample inputs\<close>

definition sampleEnv :: Env where
  "sampleEnv = \<lparr>brandIndexId = Some ''brand'', creatorIndexId = Some ''creator''\<rparr>"

text \<open>A session after an initial search: one hit shown, the brand partition has a further
  page, the creator partition is exhausted.\<close>

definition sampleSession :: SessionState where
  "sampleSession =
     \<lparr>enhancedResults = [mkHit ''v0'' 0 5 ''high'' 0.9 ''brand''],
      totalResults = \<lparr>totalAll = 0, totalBrands = 0, totalCreators = 0\<rparr>,
      hasMoreResults = True,
      nextPageTokens = [(''brand'', Some ''tA1''), (''creator'', None)],
      isLoadingMore = False, currentPage = 1, isSearching = False, hasSearched = True\<rparr>"

text \<open>A continuation reply with the given hits and no further page.\<close>

definition lastPage :: "SearchResult list \<Rightarrow> string \<Rightarrow> string \<Rightarrow> TokenResponse option outcome" where
  "lastPage hits token indexId =
     Returns (Some \<lparr>tokData = Some hits, pageInfo = Some \<lparr>next_page_token = None\<rparr>\<rparr>)"

text \<open>The reply to an initial search: one brand hit, a further brand page, and the server's
  own \<open>hasMore\<close> flag.\<close>

definition sampleReply :: SearchResponse where
  "sampleReply =
     \<lparr>respData = Some [mkHit ''v0'' 0 5 ''high'' 0.9 ''brand''],
      pageInfoByIndex = None,
      respNextPageTokens = Some [(''brand'', Some ''tA1''), (''creator'', None)],
      hasMore = Some True\<rparr>"

text \<open>A reply with data and the flag \<open>hasMore\<close>, but without a token table.\<close>

definition flagOnlyReply :: SearchResponse where
  "flagOnlyReply =
     \<lparr>respData = Some [mkHit ''v0'' 0 5 ''high'' 0.9 ''brand''],
      pageInfoByIndex = None, respNextPageTokens = None, hasMore = Some True\<rparr>"

text \<open>A reply without data.\<close>

definition emptyReply :: SearchResponse where
  "emptyReply =
     \<lparr>respData = None, pageInfoByIndex = None, respNextPageTokens = None, hasMore = None\<rparr>"

text \<open>Search routes that answer every request with the given reply, and one that fails.\<close>

definition replyWith :: "SearchResponse \<Rightarrow> 'q \<Rightarrow> SearchResponse option outcome" where
  "replyWith r q = Returns (Some r)"

definition failingSearch :: "'q \<Rightarrow> SearchResponse option outcome" where
  "failingSearch q = Throws"

text \<open>A continuation route that fails.\<close>

definition failingPage :: "string \<Rightarrow> string \<Rightarrow> TokenResponse option outcome" where
  "failingPage token indexId = Throws"

text \<open>The query \<^verbatim>\<open>"cats"\<close>, and a query of a space and a no-break space.\<close>

definition sampleQuery :: JsString where
  "sampleQuery = [0x63, 0x61, 0x74, 0x73]"

definition blankQuery :: JsString where
  "blankQuery = [0x20, 0xA0]"

text \<open>The state of the page before any search.\<close>

definition freshSession :: SessionState where
  "freshSession =
     \<lparr>enhancedResults = [],
      totalResults = \<lparr>totalAll = 0, totalBrands = 0, totalCreators = 0\<rparr>,
      hasMoreResults = False, nextPageTokens = [],
      isLoadingMore = False, currentPage = 1, isSearching = False, hasSearched = False\<rparr>"

text \<open>A detail fetch that fails for every hit.\<close>

definition noDetails :: "string \<Rightarrow> string \<Rightarrow> VideoDetails option" where
  "noDetails vid indexId = None"

text \<open>A match session with a selected video and nothing computed yet.\<close>

definition sampleMatchState :: MatchState where
  "sampleMatchState =
     \<lparr>selectedVideoId = Some ''src'', isAnalyzing = False, similarResults = [],
      isLoadingEmbeddings = False, isProcessingTargetEmbeddings = False,
      targetEmbeddingsProgress = (0, 0), embeddingsReady = False\<rparr>"

text \<open>The relation between the tag of a combined entry and its scores.\<close>

definition taggedScore :: "EmbeddingSearchResult \<Rightarrow> bool" where
  "taggedScore e =
     (if originalSource e = Some ''BOTH''
      then (case (textScore e, videoScore e) of
              (Some ts, Some vs) \<Rightarrow> score e = roundDouble (max ts vs * roundDouble 1.15)
            | _ \<Rightarrow> False)
      else if originalSource e = Some ''TEXT'' then textScore e = Some (score e)
      else originalSource e = Some ''VIDEO'' \<and> videoScore e = Some (score e))"

section \<open>Evaluating the rounding\<close>

declare ilog2.simps [simp del]

lemma ilog2_eq: "2 ^ k \<le> n \<Longrightarrow> n < 2 ^ Suc k \<Longrightarrow> ilog2 n = int k"
proof (induction k arbitrary: n)
  case 0
  then have "n = 1" by simp
  then show ?case by (simp add: ilog2.simps)
next
  case (Suc k)
  have "(2::int) \<le> 2 ^ Suc k" by simp
  with Suc.prems(1) have n1: "\<not> n \<le> 1" by linarith
  have "2 ^ k \<le> n div 2" using Suc.prems by simp
  moreover have "n div 2 < 2 ^ Suc k" using Suc.prems by simp
  ultimately have "ilog2 (n div 2) = int k" by (rule Suc.IH)
  with n1 show ?case by (simp add: ilog2.simps[of n])
qed

lemma binade_eq:
  assumes "2 powi e \<le> a" "a < 2 powi (e + 1)" "- 1022 \<le> e"
  shows "binade a = e"
proof -
  define k where "k = nat (e + 1074)"
  have ke: "e = int k - 1074" using assms(3) by (simp add: k_def)
  have p: "\<And>j. (2::real) powi (int j - 1074) * 2 ^ 1074 = 2 ^ j"
    by (simp add: power_int_diff)
  have lo: "(2::real) ^ k \<le> a * 2 ^ 1074"
    using assms(1) p[of k] unfolding ke
    by (metis mult_le_cancel_right_pos zero_less_numeral zero_less_power)
  have "e + 1 = int (Suc k) - 1074" using ke by simp
  then have hi: "a * 2 ^ 1074 < (2::real) ^ Suc k"
    using assms(2) p[of "Suc k"]
    by (metis mult_less_cancel_right_pos zero_less_numeral zero_less_power)
  have "(2::int) ^ k \<le> \<lfloor>a * 2 ^ 1074\<rfloor>"
    using lo by (simp add: le_floor_iff)
  moreover have "\<lfloor>a * 2 ^ 1074\<rfloor> < (2::int) ^ Suc k"
    using hi by (simp add: floor_less_iff)
  ultimately have "ilog2 \<lfloor>a * 2 ^ 1074\<rfloor> = int k" by (rule ilog2_eq)
  then show ?thesis using assms(3) by (simp add: binade_def ke)
qed

lemma saturate_small: "\<bar>y\<bar> \<le> 2 \<Longrightarrow> saturate y = y"
proof -
  assume a: "\<bar>y\<bar> \<le> 2"
  have "(2::real) ^ 1 < 2 ^ 1024" by (rule power_strict_increasing) simp_all
  with a have "\<not> \<bar>y\<bar> \<ge> 2 ^ 1024" by simp
  then show ?thesis unfolding saturate_def by (rule if_not_P)
qed

lemma roundDouble_quarter:
  assumes "1 / 4 \<le> x" "x < 1 / 2"
  shows "roundDouble x = saturate (of_int (roundHalfEven (x * 2 ^ 54)) / 2 ^ 54)"
proof -
  have "binade \<bar>x\<bar> = - 2" using assms by (intro binade_eq) (simp_all add: power_int_minus)
  then show ?thesis using assms by (simp add: roundDouble_def Let_def power_int_minus field_simps)
qed

lemma roundDouble_half:
  assumes "1 / 2 \<le> x" "x < 1"
  shows "roundDouble x = saturate (of_int (roundHalfEven (x * 2 ^ 53)) / 2 ^ 53)"
proof -
  have "binade \<bar>x\<bar> = - 1" using assms by (intro binade_eq) simp_all
  then show ?thesis using assms by (simp add: roundDouble_def Let_def power_int_minus field_simps)
qed

lemma roundDouble_one:
  assumes "1 \<le> x" "x < 2"
  shows "roundDouble x = saturate (of_int (roundHalfEven (x * 2 ^ 52)) / 2 ^ 52)"
proof -
  have "binade \<bar>x\<bar> = 0" using assms by (intro binade_eq) simp_all
  then show ?thesis using assms by (simp add: roundDouble_def Let_def power_int_minus field_simps)
qed

lemmas round_eval =
  roundDouble_quarter roundDouble_half roundDouble_one roundHalfEven_def saturate_small Let_def

text \<open>The doubles that the decimal literals of the scenarios denote.\<close>

lemma double_0_3: "roundDouble 0.3 = 5404319552844595 / 2 ^ 54"
  by (simp add: round_eval)

lemma double_0_345: "roundDouble 0.345 = 6214967485771284 / 2 ^ 54"
  by (simp add: round_eval)

lemma double_0_6: "roundDouble 0.6 = 5404319552844595 / 2 ^ 53"
  by (simp add: round_eval)

lemma double_0_8: "roundDouble 0.8 = 7205759403792794 / 2 ^ 53"
  by (simp add: round_eval)

lemma double_0_92: "roundDouble 0.92 = 8286623314361713 / 2 ^ 53"
  by (simp add: round_eval)

lemma double_1_15: "roundDouble 1.15 = 5179139571476070 / 2 ^ 52"
  by (simp add: round_eval)

lemma double_1_2: "roundDouble 1.2 = 5404319552844595 / 2 ^ 52"
  by (simp add: round_eval)

lemmas repeated_id_doubles = double_0_3 double_0_345 double_1_2

lemmas scenario_doubles = double_0_6 double_0_8 double_0_92 double_1_15 double_1_2

section \<open>Properties of the cross-modal combiner\<close>

subsection \<open>The sort\<close>

lemma set_insertBy: "set (insertBy cmp x xs) = insert x (set xs)"
  by (induction xs) auto

lemma set_sortBy: "set (sortBy cmp xs) = set xs"
  by (induction xs) (auto simp: set_insertBy)

lemma length_insertBy: "length (insertBy cmp x xs) = Suc (length xs)"
  by (induction xs) auto

lemma length_sortBy: "length (sortBy cmp xs) = length xs"
  by (induction xs) (auto simp: length_insertBy)

lemma getMatchLevelPriority_spec: "getMatchLevelPriority l = int (specTierPriority l)"
  by (cases l) simp_all

lemma compareMatches_rankedBefore: "compareMatches a b \<le> 0 \<longleftrightarrow> rankedBefore a b"
  by (auto simp: compareMatches_def rankedBefore_def tierOf_def Let_def
                 getMatchLevelPriority_spec)

lemma rankedBefore_total: "\<not> rankedBefore a b \<Longrightarrow> rankedBefore b a"
  by (auto simp: rankedBefore_def)

lemma rankedBefore_trans: "rankedBefore a b \<Longrightarrow> rankedBefore b c \<Longrightarrow> rankedBefore a c"
  by (auto simp: rankedBefore_def)

lemma sorted_insertBy_matches:
  "sorted_wrt rankedBefore xs \<Longrightarrow> sorted_wrt rankedBefore (insertBy compareMatches x xs)"
  by (induction xs)
     (auto simp: set_insertBy compareMatches_rankedBefore
           dest: rankedBefore_total rankedBefore_trans)

lemma sorted_sortBy_matches: "sorted_wrt rankedBefore (sortBy compareMatches xs)"
  by (induction xs) (auto simp: sorted_insertBy_matches)

subsection \<open>Entries without an id are skipped\<close>

lemma videoIdOf_update [simp]:
  "videoIdOf (r\<lparr>textScore := a\<rparr>) = videoIdOf r"
  "videoIdOf (r\<lparr>videoScore := b\<rparr>) = videoIdOf r"
  "videoIdOf (r\<lparr>originalSource := c\<rparr>) = videoIdOf r"
  "videoIdOf (r\<lparr>score := d\<rparr>) = videoIdOf r"
  by (simp_all add: videoIdOf_def)

lemma set_update_subset: "set (AList.update k v m) \<subseteq> insert (k, v) (set m)"
  by (induction m) auto

lemma length_update_le: "length (AList.update k v m) \<le> Suc (length m)"
  by (induction m) auto

lemma keyed_update:
  "keyed m \<Longrightarrow> k \<noteq> [] \<Longrightarrow> videoIdOf e = Some k \<Longrightarrow> keyed (AList.update k e m)"
  unfolding keyed_def list_all_iff using set_update_subset[of k e m] by auto

lemma keyed_map_of: "keyed m \<Longrightarrow> map_of m k = Some e \<Longrightarrow> videoIdOf e = Some k"
  unfolding keyed_def list_all_iff by (auto dest: map_of_SomeD)

lemma keyed_textStep: "keyed m \<Longrightarrow> keyed (textStep m r)"
  by (auto simp: textStep_def intro!: keyed_update split: option.splits)

lemma keyed_videoStep: "keyed m \<Longrightarrow> keyed (videoStep m r)"
  by (auto simp: videoStep_def Let_def keyed_map_of intro!: keyed_update split: option.splits)

lemma keyed_foldl_textStep: "keyed m \<Longrightarrow> keyed (foldl textStep m rs)"
  by (induction rs arbitrary: m) (auto simp: keyed_textStep)

lemma keyed_foldl_videoStep: "keyed m \<Longrightarrow> keyed (foldl videoStep m rs)"
  by (induction rs arbitrary: m) (auto simp: keyed_videoStep)

lemma keyed_buildResultMap: "keyed (buildResultMap t v)"
  unfolding buildResultMap_def
  by (intro keyed_foldl_videoStep keyed_foldl_textStep) (simp add: keyed_def)

lemma textStep_skip: "\<not> hasVideoId r \<Longrightarrow> textStep m r = m"
  by (auto simp: textStep_def hasVideoId_def truthyStr_def split: option.splits)

lemma videoStep_skip: "\<not> hasVideoId r \<Longrightarrow> videoStep m r = m"
  by (auto simp: videoStep_def hasVideoId_def truthyStr_def split: option.splits)

lemma foldl_textStep_filter: "foldl textStep m (filter hasVideoId rs) = foldl textStep m rs"
  by (induction rs arbitrary: m) (auto simp: textStep_skip)

lemma foldl_videoStep_filter: "foldl videoStep m (filter hasVideoId rs) = foldl videoStep m rs"
  by (induction rs arbitrary: m) (auto simp: videoStep_skip)

lemma length_textStep: "length (textStep m r) \<le> length m + (if hasVideoId r then 1 else 0)"
  using length_update_le[of "the (videoIdOf r)" _ m]
  by (auto simp: textStep_def hasVideoId_def truthyStr_def split: option.splits)

lemma length_videoStep: "length (videoStep m r) \<le> length m + (if hasVideoId r then 1 else 0)"
  using length_update_le[of "the (videoIdOf r)" _ m]
  by (auto simp: videoStep_def hasVideoId_def truthyStr_def Let_def split: option.splits)

lemma length_foldl_textStep:
  "length (foldl textStep m rs) \<le> length m + length (filter hasVideoId rs)"
proof (induction rs arbitrary: m)
  case Nil
  then show ?case by simp
next
  case (Cons r rs)
  show ?case
    using Cons.IH[of "textStep m r"] length_textStep[of m r] by (auto split: if_splits)
qed

lemma length_foldl_videoStep:
  "length (foldl videoStep m rs) \<le> length m + length (filter hasVideoId rs)"
proof (induction rs arbitrary: m)
  case Nil
  then show ?case by simp
next
  case (Cons r rs)
  show ?case
    using Cons.IH[of "videoStep m r"] length_videoStep[of m r] by (auto split: if_splits)
qed

lemma length_combineSearchResults:
  "length (combineSearchResults t v)
     \<le> length (filter hasVideoId t) + length (filter hasVideoId v)"
  using length_foldl_videoStep[of "foldl textStep [] t" v] length_foldl_textStep[of "[]" t]
  by (simp add: combineSearchResults_def buildResultMap_def length_sortBy)

lemma combineSearchResults_hasVideoId:
  "e \<in> set (combineSearchResults t v) \<Longrightarrow> hasVideoId e"
  using keyed_buildResultMap[of t v]
  by (auto simp: combineSearchResults_def set_sortBy keyed_def list_all_iff
                 hasVideoId_def truthyStr_def)

lemma combineSearchResults_filter:
  "combineSearchResults (filter hasVideoId t) (filter hasVideoId v) = combineSearchResults t v"
  by (simp add: combineSearchResults_def buildResultMap_def
                foldl_textStep_filter foldl_videoStep_filter)

lemmas combine_eval =
  combineSearchResults_def buildResultMap_def textStep_def videoStep_def videoIdOf_def
  mkResult_def orZero_def compareMatches_def getMatchLevel_def Let_def

subsection \<open>Claims\<close>

text \<open>
  C1, at an input where the claim and the code part: the text search returns nothing and the
  video search returns the entity \<open>v2\<close> twice, with scores \<open>1.2\<close> and \<open>0.3\<close>. The entity is
  in one list only, yet the second occurrence finds the first in the map, so the entry is
  tagged \<open>BOTH\<close> and its score is the double product of \<open>max 0 0.3\<close> and \<open>1.15\<close>, which is
  the double \<open>0.345\<close>, neither of its two scores.
\<close>

theorem combineSearchResults_repeated_video_id:
  "combineSearchResults []
     [mkResult ''v2'' (roundDouble 1.2), mkResult ''v2'' (roundDouble 0.3)] =
     [\<lparr>score = roundDouble 0.345, metadata = Some \<lparr>tl_video_id = Some ''v2''\<rparr>,
       textScore = Some 0, videoScore = Some (roundDouble 0.3),
       originalSource = Some ''BOTH''\<rparr>] \<and>
   roundDouble 0.345 \<noteq> roundDouble 1.2 \<and> roundDouble 0.345 \<noteq> roundDouble 0.3"
  unfolding repeated_id_doubles by (simp add: combine_eval round_eval)

text \<open>
  C2: the tier of an entry whose source is \<open>BOTH\<close> is high whatever its score; for any other
  source the tier is high iff the score is at least \<open>1\<close>, medium iff it is at least \<open>0.5\<close> and
  below \<open>1\<close>, and low otherwise.
\<close>

theorem getMatchLevel_tiers:
  "getMatchLevel sc (Some ''BOTH'') = High \<and>
   (source \<noteq> Some ''BOTH'' \<longrightarrow>
      (getMatchLevel sc source = High \<longleftrightarrow> sc \<ge> 1) \<and>
      (getMatchLevel sc source = Medium \<longleftrightarrow> 0.5 \<le> sc \<and> sc < 1) \<and>
      (getMatchLevel sc source = Low \<longleftrightarrow> \<not> sc \<ge> 1 \<and> \<not> (0.5 \<le> sc \<and> sc < 1)))"
  by (auto simp: getMatchLevel_def)

theorem getMatchLevel_tiers_witness:
  "Some ''TEXT'' \<noteq> Some ''BOTH'' \<and>
   getMatchLevel 0.7 (Some ''TEXT'') = Medium \<and>
   getMatchLevel 0.7 (Some ''BOTH'') = High"
  using getMatchLevel_tiers[of "0.7" "Some ''TEXT''"] by simp

text \<open>
  C6 as stated fails on its own scenario: on text results \<open>[(v1, 0.8)]\<close> and video results
  \<open>[(v1, 0.6), (v2, 1.2)]\<close> the combined score of \<open>v1\<close> is the double product of \<open>0.8\<close> and
  \<open>1.15\<close>, which is \<open>8286623314361712 / 2 ^ 53\<close>, printed \<open>0.9199999999999999\<close>. It is
  neither the number \<open>0.92\<close> nor the double that the literal \<open>0.92\<close> denotes.
\<close>

theorem combineSearchResults_scenario_score_counterexample:
  "map score
     (combineSearchResults [mkResult ''v1'' (roundDouble 0.8)]
        [mkResult ''v1'' (roundDouble 0.6), mkResult ''v2'' (roundDouble 1.2)]) =
     [roundDouble 1.2, 8286623314361712 / 2 ^ 53] \<and>
   (8286623314361712 / 2 ^ 53 :: real) \<noteq> 0.92 \<and>
   8286623314361712 / 2 ^ 53 \<noteq> roundDouble 0.92"
  unfolding scenario_doubles by (simp add: combine_eval round_eval)

text \<open>
  C6 as amended: the priorities of the tiers are high = 3, medium = 2, low = 1; the list
  returned by \<open>combineSearchResults\<close> is sorted by tier priority, highest first, and within
  a tier by combined score, highest first; on text results \<open>[(v1, 0.8)]\<close> and video results
  \<open>[(v1, 0.6), (v2, 1.2)]\<close> it returns \<open>v2\<close> (source \<open>VIDEO\<close>, score \<open>1.2\<close>, tier high) and
  then \<open>v1\<close> (source \<open>BOTH\<close>, tier high), whose score is the double product of \<open>0.8\<close> and
  \<open>1.15\<close>, the double next below \<open>0.92\<close>. Entries of three different tiers, given in
  ascending order, come out high, medium, low.
\<close>

theorem combineSearchResults_sorted:
  "getMatchLevelPriority High = 3 \<and> getMatchLevelPriority Medium = 2 \<and>
   getMatchLevelPriority Low = 1 \<and>
   sorted_wrt rankedBefore (combineSearchResults textResults videoResults) \<and>
   combineSearchResults [mkResult ''v1'' (roundDouble 0.8)]
     [mkResult ''v1'' (roundDouble 0.6), mkResult ''v2'' (roundDouble 1.2)] =
     [\<lparr>score = roundDouble 1.2, metadata = Some \<lparr>tl_video_id = Some ''v2''\<rparr>,
       textScore = None, videoScore = Some (roundDouble 1.2),
       originalSource = Some ''VIDEO''\<rparr>,
      \<lparr>score = roundDouble (roundDouble 0.8 * roundDouble 1.15),
       metadata = Some \<lparr>tl_video_id = Some ''v1''\<rparr>,
       textScore = Some (roundDouble 0.8), videoScore = Some (roundDouble 0.6),
       originalSource = Some ''BOTH''\<rparr>] \<and>
   roundDouble (roundDouble 0.8 * roundDouble 1.15) = 8286623314361712 / 2 ^ 53 \<and>
   roundDouble 0.92 - roundDouble (roundDouble 0.8 * roundDouble 1.15) = 1 / 2 ^ 53 \<and>
   map tierOf
     (combineSearchResults [mkResult ''v1'' (roundDouble 0.8)]
        [mkResult ''v1'' (roundDouble 0.6), mkResult ''v2'' (roundDouble 1.2)]) =
     [High, High] \<and>
   combineSearchResults [mkResult ''a'' 0.25, mkResult ''b'' 0.75] [mkResult ''c'' 1.5] =
     [\<lparr>score = 1.5, metadata = Some \<lparr>tl_video_id = Some ''c''\<rparr>,
       textScore = None, videoScore = Some 1.5, originalSource = Some ''VIDEO''\<rparr>,
      \<lparr>score = 0.75, metadata = Some \<lparr>tl_video_id = Some ''b''\<rparr>,
       textScore = Some 0.75, videoScore = None, originalSource = Some ''TEXT''\<rparr>,
      \<lparr>score = 0.25, metadata = Some \<lparr>tl_video_id = Some ''a''\<rparr>,
       textScore = Some 0.25, videoScore = None, originalSource = Some ''TEXT''\<rparr>] \<and>
   map tierOf
     (combineSearchResults [mkResult ''a'' 0.25, mkResult ''b'' 0.75] [mkResult ''c'' 1.5]) =
     [High, Medium, Low]"
proof -
  have sorted: "sorted_wrt rankedBefore (combineSearchResults textResults videoResults)"
    unfolding combineSearchResults_def by (rule sorted_sortBy_matches)
  have scenario: "combineSearchResults [mkResult ''v1'' (roundDouble 0.8)]
     [mkResult ''v1'' (roundDouble 0.6), mkResult ''v2'' (roundDouble 1.2)] =
     [\<lparr>score = roundDouble 1.2, metadata = Some \<lparr>tl_video_id = Some ''v2''\<rparr>,
       textScore = None, videoScore = Some (roundDouble 1.2),
       originalSource = Some ''VIDEO''\<rparr>,
      \<lparr>score = roundDouble (roundDouble 0.8 * roundDouble 1.15),
       metadata = Some \<lparr>tl_video_id = Some ''v1''\<rparr>,
       textScore = Some (roundDouble 0.8), videoScore = Some (roundDouble 0.6),
       originalSource = Some ''BOTH''\<rparr>]"
    unfolding scenario_doubles by (simp add: combine_eval round_eval)
  have product: "roundDouble (roundDouble 0.8 * roundDouble 1.15) = 8286623314361712 / 2 ^ 53"
    unfolding scenario_doubles by (simp add: round_eval)
  have below: "roundDouble 0.92 - roundDouble (roundDouble 0.8 * roundDouble 1.15) = 1 / 2 ^ 53"
    unfolding product double_0_92 by simp
  have tiers: "map tierOf
     (combineSearchResults [mkResult ''v1'' (roundDouble 0.8)]
        [mkResult ''v1'' (roundDouble 0.6), mkResult ''v2'' (roundDouble 1.2)]) =
     [High, High]"
    unfolding scenario unfolding scenario_doubles by (simp add: tierOf_def getMatchLevel_def)
  have mixed: "combineSearchResults [mkResult ''a'' 0.25, mkResult ''b'' 0.75] [mkResult ''c'' 1.5] =
     [\<lparr>score = 1.5, metadata = Some \<lparr>tl_video_id = Some ''c''\<rparr>,
       textScore = None, videoScore = Some 1.5, originalSource = Some ''VIDEO''\<rparr>,
      \<lparr>score = 0.75, metadata = Some \<lparr>tl_video_id = Some ''b''\<rparr>,
       textScore = Some 0.75, videoScore = None, originalSource = Some ''TEXT''\<rparr>,
      \<lparr>score = 0.25, metadata = Some \<lparr>tl_video_id = Some ''a''\<rparr>,
       textScore = Some 0.25, videoScore = None, originalSource = Some ''TEXT''\<rparr>]"
    by (simp add: combine_eval)
  have mixedTiers: "map tierOf
     (combineSearchResults [mkResult ''a'' 0.25, mkResult ''b'' 0.75] [mkResult ''c'' 1.5]) =
     [High, Medium, Low]"
    unfolding mixed by (simp add: tierOf_def getMatchLevel_def)
  show ?thesis
    using sorted scenario product below tiers mixed mixedTiers by simp
qed

text \<open>
  C10: an input entry whose metadata has no usable \<open>tl_video_id\<close> never reaches the output:
  every output entry has one, the output is the same as on the inputs with such entries
  removed, and it has at most as many entries as there are inputs with an id. So the output
  can be shorter than the inputs: an id-less text entry and an id-less video entry beside
  one video entry \<open>v2\<close> give the single entry \<open>v2\<close>.
\<close>

theorem combineSearchResults_drops_missing_ids:
  "(\<forall>e \<in> set (combineSearchResults textResults videoResults). hasVideoId e) \<and>
   combineSearchResults textResults videoResults =
     combineSearchResults (filter hasVideoId textResults) (filter hasVideoId videoResults) \<and>
   length (combineSearchResults textResults videoResults)
     \<le> length (filter hasVideoId textResults) + length (filter hasVideoId videoResults) \<and>
   combineSearchResults
     [(mkResult ''v1'' 0.9)\<lparr>metadata := None\<rparr>]
     [mkResult ''v2'' 1.2, (mkResult ''v3'' 0.4)\<lparr>metadata := Some \<lparr>tl_video_id = None\<rparr>\<rparr>] =
     [\<lparr>score = 1.2, metadata = Some \<lparr>tl_video_id = Some ''v2''\<rparr>,
       textScore = None, videoScore = Some 1.2, originalSource = Some ''VIDEO''\<rparr>]"
proof -
  have "\<forall>e \<in> set (combineSearchResults textResults videoResults). hasVideoId e"
    by (simp add: combineSearchResults_hasVideoId)
  moreover have "combineSearchResults
     [(mkResult ''v1'' 0.9)\<lparr>metadata := None\<rparr>]
     [mkResult ''v2'' 1.2, (mkResult ''v3'' 0.4)\<lparr>metadata := Some \<lparr>tl_video_id = None\<rparr>\<rparr>] =
     [\<lparr>score = 1.2, metadata = Some \<lparr>tl_video_id = Some ''v2''\<rparr>,
       textScore = None, videoScore = Some 1.2, originalSource = Some ''VIDEO''\<rparr>]"
    by (simp add: combine_eval)
  ultimately show ?thesis
    using length_combineSearchResults[of textResults videoResults]
          combineSearchResults_filter[of textResults videoResults]
    by simp
qed

theorem combineSearchResults_drops_missing_ids_witness:
  "(mkResult ''v2'' 1.2)\<lparr>videoScore := Some 1.2, originalSource := Some ''VIDEO''\<rparr>
     \<in> set (combineSearchResults [] [mkResult ''v2'' 1.2]) \<and>
   hasVideoId ((mkResult ''v2'' 1.2)\<lparr>videoScore := Some 1.2, originalSource := Some ''VIDEO''\<rparr>)"
proof -
  have mem: "(mkResult ''v2'' 1.2)\<lparr>videoScore := Some 1.2, originalSource := Some ''VIDEO''\<rparr>
     \<in> set (combineSearchResults [] [mkResult ''v2'' 1.2])"
    by (simp add: combine_eval)
  with combineSearchResults_drops_missing_ids[of "[]" "[mkResult ''v2'' 1.2]"]
  show ?thesis by blast
qed

subsection \<open>The tag of an entry and its scores\<close>

lemma taggedScore_update:
  "\<forall>e \<in> snd ` set m. taggedScore e \<Longrightarrow> taggedScore e \<Longrightarrow>
   \<forall>x \<in> snd ` set (AList.update k e m). taggedScore x"
  using set_update_subset[of k e m] by auto

lemma taggedScore_text_entry:
  "taggedScore (r\<lparr>textScore := Some (score r), originalSource := Some ''TEXT''\<rparr>)"
  by (simp add: taggedScore_def)

lemma taggedScore_video_entry:
  "taggedScore (r\<lparr>videoScore := Some (score r), originalSource := Some ''VIDEO''\<rparr>)"
  by (simp add: taggedScore_def)

lemma taggedScore_both_entry:
  "taggedScore (x\<lparr>score := roundDouble (max t v * roundDouble 1.15),
                  videoScore := Some v, textScore := Some t,
                  originalSource := Some ''BOTH''\<rparr>)"
  by (simp add: taggedScore_def)

lemma taggedScore_textStep:
  assumes "\<forall>e \<in> snd ` set m. taggedScore e"
  shows "\<forall>e \<in> snd ` set (textStep m r). taggedScore e"
proof (cases "videoIdOf r")
  case None
  then show ?thesis using assms by (simp add: textStep_def)
next
  case (Some k)
  show ?thesis
  proof (cases "k = []")
    case True
    then show ?thesis using assms Some by (simp add: textStep_def)
  next
    case False
    then show ?thesis
      using Some taggedScore_update[OF assms taggedScore_text_entry[where r=r], of k]
      by (simp add: textStep_def)
  qed
qed

lemma taggedScore_videoStep:
  assumes "\<forall>e \<in> snd ` set m. taggedScore e"
  shows "\<forall>e \<in> snd ` set (videoStep m r). taggedScore e"
proof (cases "videoIdOf r")
  case None
  then show ?thesis using assms by (simp add: videoStep_def)
next
  case (Some k)
  show ?thesis
  proof (cases "k = []")
    case True
    then show ?thesis using assms Some by (simp add: videoStep_def)
  next
    case False
    show ?thesis
    proof (cases "map_of m k")
      case None
      then show ?thesis
        using Some False taggedScore_update[OF assms taggedScore_video_entry[where r=r], of k]
        by (simp add: videoStep_def)
    next
      case (Some x)
      then show ?thesis
        using \<open>videoIdOf r = Some k\<close> False
              taggedScore_update[OF assms
                taggedScore_both_entry[where x=x and t="orZero (textScore x)" and v="score r"],
                of k]
        by (simp add: videoStep_def Let_def)
    qed
  qed
qed

lemma taggedScore_foldl_textStep:
  "\<forall>e \<in> snd ` set m. taggedScore e \<Longrightarrow> \<forall>e \<in> snd ` set (foldl textStep m rs). taggedScore e"
proof (induction rs arbitrary: m)
  case Nil
  then show ?case by simp
next
  case (Cons r rs)
  from Cons.prems have "\<forall>e \<in> snd ` set (textStep m r). taggedScore e"
    by (rule taggedScore_textStep)
  then have "\<forall>e \<in> snd ` set (foldl textStep (textStep m r) rs). taggedScore e"
    by (rule Cons.IH)
  then show ?case by simp
qed

lemma taggedScore_foldl_videoStep:
  "\<forall>e \<in> snd ` set m. taggedScore e \<Longrightarrow> \<forall>e \<in> snd ` set (foldl videoStep m rs). taggedScore e"
proof (induction rs arbitrary: m)
  case Nil
  then show ?case by simp
next
  case (Cons r rs)
  from Cons.prems have "\<forall>e \<in> snd ` set (videoStep m r). taggedScore e"
    by (rule taggedScore_videoStep)
  then have "\<forall>e \<in> snd ` set (foldl videoStep (videoStep m r) rs). taggedScore e"
    by (rule Cons.IH)
  then show ?case by simp
qed

text \<open>Whatever the inputs, an output entry tagged \<open>BOTH\<close> has the boosted maximum of its two
  stored scores, and an entry tagged \<open>TEXT\<close> or \<open>VIDEO\<close> has the score it came with. An
  id that occurs twice among the video results changes the tag, not this relation.\<close>

lemma combineSearchResults_taggedScore:
  "e \<in> set (combineSearchResults t v) \<Longrightarrow> taggedScore e"
proof -
  have "\<forall>e \<in> snd ` set (buildResultMap t v). taggedScore e"
    unfolding buildResultMap_def
    by (rule taggedScore_foldl_videoStep, rule taggedScore_foldl_textStep) simp
  then show "e \<in> set (combineSearchResults t v) \<Longrightarrow> taggedScore e"
    by (auto simp: combineSearchResults_def set_sortBy)
qed

section \<open>Properties of the readiness gate\<close>

lemma handleFindMatches_not_ready:
  assumes "selectedVideoId st = Some vid" "vid \<noteq> []" "check vid = Returns r" "\<not> success r"
  shows "snd (handleFindMatches check ts vs st) = [CheckAndEnsureEmbeddings] \<and>
         similarResults (fst (handleFindMatches check ts vs st)) = []"
  using assms by (simp add: handleFindMatches_def truthyStr_def Let_def)

lemma handleFindMatches_calls_need_success:
  assumes "TextToVideoEmbeddingSearch \<in> set (snd (handleFindMatches check ts vs st)) \<or>
           VideoToVideoEmbeddingSearch \<in> set (snd (handleFindMatches check ts vs st)) \<or>
           CombineSearchResults \<in> set (snd (handleFindMatches check ts vs st))"
  shows "\<exists>vid r. selectedVideoId st = Some vid \<and> check vid = Returns r \<and> success r"
  using assms
  by (auto simp: handleFindMatches_def truthyStr_def Let_def
           split: if_splits option.splits outcome.splits prod.splits)

text \<open>
  C7: when the readiness check returns \<open>success = false\<close>, the handler makes no call besides
  the check (neither similarity search, nor the combiner) and the match list is empty; and
  whenever a similarity search or the combiner is called, the check has returned
  \<open>success = true\<close>.
\<close>

theorem handleFindMatches_readiness_gate:
  "(selectedVideoId st = Some vid \<and> vid \<noteq> [] \<and> check vid = Returns r \<and> \<not> success r \<longrightarrow>
      snd (handleFindMatches check ts vs st) = [CheckAndEnsureEmbeddings] \<and>
      similarResults (fst (handleFindMatches check ts vs st)) = []) \<and>
   (TextToVideoEmbeddingSearch \<in> set (snd (handleFindMatches check ts vs st)) \<or>
    VideoToVideoEmbeddingSearch \<in> set (snd (handleFindMatches check ts vs st)) \<or>
    CombineSearchResults \<in> set (snd (handleFindMatches check ts vs st)) \<longrightarrow>
      (\<exists>vid' r'. selectedVideoId st = Some vid' \<and> check vid' = Returns r' \<and> success r'))"
  using handleFindMatches_not_ready[of st vid check r ts vs]
        handleFindMatches_calls_need_success[of check ts vs st]
  by blast

theorem handleFindMatches_readiness_gate_witness:
  "snd (handleFindMatches
          (\<lambda>v. Returns \<lparr>processedCount = 1, totalCount = 3, success = False\<rparr>)
          (\<lambda>v. Returns [mkResult ''v1'' 0.8]) (\<lambda>v. Returns [mkResult ''v1'' 0.6])
          sampleMatchState) = [CheckAndEnsureEmbeddings] \<and>
   similarResults (fst (handleFindMatches
          (\<lambda>v. Returns \<lparr>processedCount = 1, totalCount = 3, success = False\<rparr>)
          (\<lambda>v. Returns [mkResult ''v1'' 0.8]) (\<lambda>v. Returns [mkResult ''v1'' 0.6])
          sampleMatchState)) = [] \<and>
   CombineSearchResults \<in> set (snd (handleFindMatches
          (\<lambda>v. Returns \<lparr>processedCount = 3, totalCount = 3, success = True\<rparr>)
          (\<lambda>v. Returns [mkResult ''v1'' 0.8]) (\<lambda>v. Returns [mkResult ''v1'' 0.6])
          sampleMatchState)) \<and>
   (\<exists>vid' r'. selectedVideoId sampleMatchState = Some vid' \<and>
      (\<lambda>v. Returns \<lparr>processedCount = 3, totalCount = 3, success = True\<rparr>) vid' = Returns r' \<and>
      success r')"
proof -
  have called: "CombineSearchResults \<in> set (snd (handleFindMatches
          (\<lambda>v. Returns \<lparr>processedCount = 3, totalCount = 3, success = True\<rparr>)
          (\<lambda>v. Returns [mkResult ''v1'' 0.8]) (\<lambda>v. Returns [mkResult ''v1'' 0.6])
          sampleMatchState))"
    by (simp add: handleFindMatches_def sampleMatchState_def truthyStr_def Let_def)
  have sel: "selectedVideoId sampleMatchState = Some ''src'' \<and> ''src'' \<noteq> []"
    by (simp add: sampleMatchState_def)
  show ?thesis
    using called sel
      handleFindMatches_readiness_gate[where st=sampleMatchState and vid="''src''"
        and check="\<lambda>v. Returns \<lparr>processedCount = 1, totalCount = 3, success = False\<rparr>"
        and r="\<lparr>processedCount = 1, totalCount = 3, success = False\<rparr>"
        and ts="\<lambda>v. Returns [mkResult ''v1'' 0.8]" and vs="\<lambda>v. Returns [mkResult ''v1'' 0.6]"]
      handleFindMatches_readiness_gate[where st=sampleMatchState
        and check="\<lambda>v. Returns \<lparr>processedCount = 3, totalCount = 3, success = True\<rparr>"
        and ts="\<lambda>v. Returns [mkResult ''v1'' 0.8]" and vs="\<lambda>v. Returns [mkResult ''v1'' 0.6]"]
    by simp
qed

section \<open>Properties of the federated search\<close>

subsection \<open>The merge\<close>

lemma mergeResults_distinct:
  "distinct (map itemKey S) \<Longrightarrow> distinct (map itemKey B) \<Longrightarrow>
   distinct (map itemKey (mergeResults S B))"
  by (auto simp: mergeResults_def distinct_map_filter)

lemmas session_eval =
  loadMoreResults_def continuationRequests_def tokenFor_def propertyKey_def
  collectResponse_def nextTokenOf_def truthyStr_def fetchVideoDetailsForResults_def
  withDetails_def someTokenLeft_def mergeResults_def itemKey_def mkHit_def Let_def
  sampleEnv_def sampleSession_def lastPage_def noDetails_def

text \<open>
  C4: merging a batch a second time changes nothing,
  \<open>merge (merge S B) B = merge S B\<close>, the identity of a hit being its key
  \<open>(video_id, start, end)\<close>.
\<close>

theorem mergeResults_idempotent:
  "mergeResults (mergeResults S B) B = mergeResults S B"
proof -
  have "filter (\<lambda>item. itemKey item \<notin> set (map itemKey (mergeResults S B))) B = []"
    by (auto simp: mergeResults_def filter_empty_conv)
  then show ?thesis
    by (simp add: mergeResults_def[of "mergeResults S B"])
qed

text \<open>
  C5, at an input where the claim and the code part: the session shows one hit \<open>v0\<close>, and
  the continuation round of the brand partition delivers two hits with the key
  \<open>(v1, 10, 20)\<close>. The filter compares each new hit with the keys already shown only, so
  both are appended and the aggregated list holds the key twice.
\<close>

theorem loadMoreResults_repeated_key_in_batch:
  "enhancedResults
     (loadMoreResults sampleEnv
        (lastPage [mkHit ''v1'' 10 20 ''high'' 0.8 ''brand'', mkHit ''v1'' 10 20 ''low'' 0.3 ''brand''])
        noDetails sampleSession) =
     [mkHit ''v0'' 0 5 ''high'' 0.9 ''brand'',
      mkHit ''v1'' 10 20 ''high'' 0.8 ''brand'',
      mkHit ''v1'' 10 20 ''low'' 0.3 ''brand''] \<and>
   map itemKey
     (enhancedResults
        (loadMoreResults sampleEnv
           (lastPage [mkHit ''v1'' 10 20 ''high'' 0.8 ''brand'', mkHit ''v1'' 10 20 ''low'' 0.3 ''brand''])
           noDetails sampleSession)) =
     [(''v0'', 0, 5), (''v1'', 10, 20), (''v1'', 10, 20)]"
  by (simp add: session_eval)

theorem loadMoreResults_repeated_key_in_batch_witness:
  "\<not> (\<not> hasMoreResults sampleSession \<or> isLoadingMore sampleSession) \<and>
   \<not> distinct (map itemKey
     (enhancedResults
        (loadMoreResults sampleEnv
           (lastPage [mkHit ''v1'' 10 20 ''high'' 0.8 ''brand'', mkHit ''v1'' 10 20 ''low'' 0.3 ''brand''])
           noDetails sampleSession)))"
proof -
  have "\<not> (\<not> hasMoreResults sampleSession \<or> isLoadingMore sampleSession)"
    by (simp add: sampleSession_def)
  moreover have "map itemKey
     (enhancedResults
        (loadMoreResults sampleEnv
           (lastPage [mkHit ''v1'' 10 20 ''high'' 0.8 ''brand'', mkHit ''v1'' 10 20 ''low'' 0.3 ''brand''])
           noDetails sampleSession)) =
     [(''v0'', 0, 5), (''v1'', 10, 20), (''v1'', 10, 20)]"
    using loadMoreResults_repeated_key_in_batch by (rule conjunct2)
  ultimately show ?thesis by simp
qed

subsection \<open>The flag \<open>hasMoreResults\<close>\<close>

lemma fetched_empty_iff: "fst (fetchVideoDetailsForResults f rs b st) = [] \<longleftrightarrow> rs = []"
  by (simp add: fetchVideoDetailsForResults_def Let_def)

lemma someTokenLeft_iff: "someTokenLeft tokens \<longleftrightarrow> (\<exists>k t. (k, Some t) \<in> set tokens)"
  by (force simp: someTokenLeft_def list_ex_iff)

lemma loadMoreResults_idle:
  "\<not> hasMoreResults st \<or> isLoadingMore st \<Longrightarrow> loadMoreResults env byToken fetch st = st"
  by (auto simp: loadMoreResults_def)

lemma loadMoreResults_with_hits:
  assumes "hasMoreResults st" "\<not> isLoadingMore st"
    and "roundOutcome env byToken st = Some (hits, tokens)" "hits \<noteq> []"
  shows "nextPageTokens (loadMoreResults env byToken fetch st) = tokens \<and>
         hasMoreResults (loadMoreResults env byToken fetch st) = someTokenLeft tokens"
proof -
  from assms(3) obtain responses
    where j: "joinAll (continuationRequests env byToken (nextPageTokens st)) = Some responses"
      and f: "foldl collectResponse ([], nextPageTokens st) responses = (hits, tokens)"
    by (auto simp: roundOutcome_def split: option.splits)
  have ne: "continuationRequests env byToken (nextPageTokens st) \<noteq> []"
  proof
    assume "continuationRequests env byToken (nextPageTokens st) = []"
    with j f assms(4) show False by auto
  qed
  show ?thesis
    using assms(1,2,4) j f ne by (simp add: loadMoreResults_def Let_def fetched_empty_iff)
qed

lemma loadMoreResults_without_hits:
  assumes "hasMoreResults st" "\<not> isLoadingMore st"
    and "roundOutcome env byToken st = Some ([], tokens)"
  shows "nextPageTokens (loadMoreResults env byToken fetch st) = nextPageTokens st \<and>
         \<not> hasMoreResults (loadMoreResults env byToken fetch st)"
proof -
  from assms(3) obtain responses
    where j: "joinAll (continuationRequests env byToken (nextPageTokens st)) = Some responses"
      and f: "foldl collectResponse ([], nextPageTokens st) responses = ([], tokens)"
    by (auto simp: roundOutcome_def split: option.splits)
  show ?thesis
    using assms(1,2) j f by (simp add: loadMoreResults_def Let_def fetched_empty_iff)
qed

lemma loadMoreResults_failed:
  assumes "hasMoreResults st" "\<not> isLoadingMore st"
    and "roundOutcome env byToken st = None"
  shows "nextPageTokens (loadMoreResults env byToken fetch st) = nextPageTokens st \<and>
         hasMoreResults (loadMoreResults env byToken fetch st)"
proof -
  from assms(3) have j: "joinAll (continuationRequests env byToken (nextPageTokens st)) = None"
    by (auto simp: roundOutcome_def split: option.splits)
  then have ne: "continuationRequests env byToken (nextPageTokens st) \<noteq> []"
    by auto
  show ?thesis
    using assms(1,2) j ne by (simp add: loadMoreResults_def Let_def)
qed

lemma handleTextSearch_blank: "isBlank q \<Longrightarrow> handleTextSearch env post fetch q st = st"
  by (simp add: handleTextSearch_def)

lemma handleTextSearch_hasMore:
  assumes "\<not> isBlank q" "post q = Returns (Some r)" "respData r = Some results"
  shows "hasMoreResults (handleTextSearch env post fetch q st) =
           (case hasMore r of
              Some b \<Rightarrow> b
            | None \<Rightarrow>
                length results \<ge> 24 \<and>
                (length (filter (\<lambda>x. Some (index_id x) = brandIndexId env) results) = 24 \<or>
                 length (filter (\<lambda>x. Some (index_id x) \<noteq> brandIndexId env \<and>
                                      Some (index_id x) = creatorIndexId env) results) = 24)) \<and>
         nextPageTokens (handleTextSearch env post fetch q st) =
           (case respNextPageTokens r of None \<Rightarrow> [] | Some t \<Rightarrow> t)"
  using assms
  by (simp add: handleTextSearch_def Let_def fetchVideoDetailsForResults_def itemsPerPage_def)

lemma handleTextSearch_no_data:
  assumes "\<not> isBlank q" "post q = Returns None \<or> (post q = Returns (Some r) \<and> respData r = None)"
  shows "\<not> hasMoreResults (handleTextSearch env post fetch q st) \<and>
         nextPageTokens (handleTextSearch env post fetch q st) = nextPageTokens st"
  using assms by (auto simp: handleTextSearch_def Let_def)

lemma handleTextSearch_failed:
  assumes "\<not> isBlank q" "post q = Throws"
  shows "hasMoreResults (handleTextSearch env post fetch q st) = hasMoreResults st \<and>
         nextPageTokens (handleTextSearch env post fetch q st) = nextPageTokens st"
  using assms by (simp add: handleTextSearch_def Let_def)

lemma applyCropAndSearch_flag:
  "nextPageTokens (applyCropAndSearch env postImage fetch (Some img) st) = [] \<and>
   hasMoreResults (applyCropAndSearch env postImage fetch (Some img) st) = hasMoreResults st"
  by (simp add: applyCropAndSearch_def Let_def fetchVideoDetailsForResults_def
           split: outcome.splits option.splits)

lemmas search_eval =
  handleTextSearch_def applyCropAndSearch_def fetchVideoDetailsForResults_def
  isBlank_def isWhiteSpace_def itemsPerPage_def Let_def
  sampleEnv_def sampleSession_def freshSession_def sampleQuery_def
  replyWith_def noDetails_def

text \<open>
  C3 as stated fails after a continuation round and after an initial round of either kind.
  The brand partition holds the token \<open>tA1\<close>, its continuation round returns an empty page,
  and afterwards the flag is false while the stored token \<open>tA1\<close> is still there. A search
  by image in the same session empties the token table and leaves the flag true. A text
  search from the fresh page whose reply carries \<open>hasMore = true\<close> and no token table sets
  the flag true with an empty table.
\<close>

theorem loadMoreResults_empty_page_counterexample:
  "hasMoreResults (loadMoreResults sampleEnv (lastPage []) noDetails sampleSession) = False \<and>
   nextPageTokens (loadMoreResults sampleEnv (lastPage []) noDetails sampleSession) =
     [(''brand'', Some ''tA1''), (''creator'', None)] \<and>
   someTokenLeft (nextPageTokens (loadMoreResults sampleEnv (lastPage []) noDetails sampleSession)) \<and>
   hasMoreResults
     (applyCropAndSearch sampleEnv (replyWith sampleReply) noDetails (Some ()) sampleSession) \<and>
   nextPageTokens
     (applyCropAndSearch sampleEnv (replyWith sampleReply) noDetails (Some ()) sampleSession) = [] \<and>
   hasMoreResults
     (handleTextSearch sampleEnv (replyWith flagOnlyReply) noDetails sampleQuery freshSession) \<and>
   nextPageTokens
     (handleTextSearch sampleEnv (replyWith flagOnlyReply) noDetails sampleQuery freshSession) = []"
proof -
  have "hasMoreResults (loadMoreResults sampleEnv (lastPage []) noDetails sampleSession) = False \<and>
   nextPageTokens (loadMoreResults sampleEnv (lastPage []) noDetails sampleSession) =
     [(''brand'', Some ''tA1''), (''creator'', None)] \<and>
   someTokenLeft (nextPageTokens (loadMoreResults sampleEnv (lastPage []) noDetails sampleSession))"
    by (simp add: session_eval)
  moreover have "hasMoreResults
     (applyCropAndSearch sampleEnv (replyWith sampleReply) noDetails (Some ()) sampleSession) \<and>
   nextPageTokens
     (applyCropAndSearch sampleEnv (replyWith sampleReply) noDetails (Some ()) sampleSession) = []"
    by (simp add: search_eval sampleReply_def)
  moreover have "hasMoreResults
     (handleTextSearch sampleEnv (replyWith flagOnlyReply) noDetails sampleQuery freshSession) \<and>
   nextPageTokens
     (handleTextSearch sampleEnv (replyWith flagOnlyReply) noDetails sampleQuery freshSession) = []"
    by (simp add: search_eval flagOnlyReply_def)
  ultimately show ?thesis by blast
qed

text \<open>
  C3 as amended, round by round.

  Continuation: \<open>loadMoreResults\<close> runs a round only when the flag is set and no load is
  in progress. After a round in which every request returns and at least one hit is
  delivered, the token table is the updated one and \<open>hasMoreResults\<close> is true iff some
  stored token is non-null (an index absent from the table has no token). After a round in
  which every request returns, or none is sent, and no hit is delivered, \<open>hasMoreResults\<close>
  is false and the table is as before. After a round in which a request fails, the flag is
  still true and the table is as before.

  Initial text search: a blank query starts no round. When the reply carries data,
  \<open>hasMoreResults\<close> is the \<open>hasMore\<close> flag of the reply when there is one, and otherwise
  the page-size test (at least 24 hits, and exactly 24 from the brand or from the creator
  index), and the stored tokens are those of the reply. When the reply carries no data the
  flag is false, and when the request fails the flag is as before; the table is as before
  in both cases.

  Initial image search: the token table is empty afterwards and \<open>hasMoreResults\<close> is as
  before.
\<close>

theorem hasMoreResults_after_round:
  "(\<not> hasMoreResults st \<or> isLoadingMore st \<longrightarrow>
      loadMoreResults env byToken fetch st = st) \<and>
   (hasMoreResults st \<and> \<not> isLoadingMore st \<and>
    roundOutcome env byToken st = Some (hits, tokens) \<and> hits \<noteq> [] \<longrightarrow>
      nextPageTokens (loadMoreResults env byToken fetch st) = tokens \<and>
      (hasMoreResults (loadMoreResults env byToken fetch st) \<longleftrightarrow>
         (\<exists>k t. (k, Some t) \<in> set (nextPageTokens (loadMoreResults env byToken fetch st))))) \<and>
   (hasMoreResults st \<and> \<not> isLoadingMore st \<and>
    roundOutcome env byToken st = Some ([], tokens) \<longrightarrow>
      \<not> hasMoreResults (loadMoreResults env byToken fetch st) \<and>
      nextPageTokens (loadMoreResults env byToken fetch st) = nextPageTokens st) \<and>
   (hasMoreResults st \<and> \<not> isLoadingMore st \<and> roundOutcome env byToken st = None \<longrightarrow>
      hasMoreResults (loadMoreResults env byToken fetch st) \<and>
      nextPageTokens (loadMoreResults env byToken fetch st) = nextPageTokens st) \<and>
   (isBlank q \<longrightarrow> handleTextSearch env post fetch q st = st) \<and>
   (\<not> isBlank q \<and> post q = Returns (Some r) \<and> respData r = Some results \<longrightarrow>
      hasMoreResults (handleTextSearch env post fetch q st) =
        (case hasMore r of
           Some b \<Rightarrow> b
         | None \<Rightarrow>
             length results \<ge> 24 \<and>
             (length (filter (\<lambda>x. Some (index_id x) = brandIndexId env) results) = 24 \<or>
              length (filter (\<lambda>x. Some (index_id x) \<noteq> brandIndexId env \<and>
                                   Some (index_id x) = creatorIndexId env) results) = 24)) \<and>
      nextPageTokens (handleTextSearch env post fetch q st) =
        (case respNextPageTokens r of None \<Rightarrow> [] | Some t \<Rightarrow> t)) \<and>
   (\<not> isBlank q \<and>
    (post q = Returns None \<or> (post q = Returns (Some r) \<and> respData r = None)) \<longrightarrow>
      \<not> hasMoreResults (handleTextSearch env post fetch q st) \<and>
      nextPageTokens (handleTextSearch env post fetch q st) = nextPageTokens st) \<and>
   (\<not> isBlank q \<and> post q = Throws \<longrightarrow>
      hasMoreResults (handleTextSearch env post fetch q st) = hasMoreResults st \<and>
      nextPageTokens (handleTextSearch env post fetch q st) = nextPageTokens st) \<and>
   nextPageTokens (applyCropAndSearch env postImage fetch (Some img) st) = [] \<and>
   hasMoreResults (applyCropAndSearch env postImage fetch (Some img) st) = hasMoreResults st"
proof -
  have idle: "\<not> hasMoreResults st \<or> isLoadingMore st \<longrightarrow>
      loadMoreResults env byToken fetch st = st"
    using loadMoreResults_idle[of st env byToken fetch] by blast
  have with_hits: "hasMoreResults st \<and> \<not> isLoadingMore st \<and>
    roundOutcome env byToken st = Some (hits, tokens) \<and> hits \<noteq> [] \<longrightarrow>
      nextPageTokens (loadMoreResults env byToken fetch st) = tokens \<and>
      (hasMoreResults (loadMoreResults env byToken fetch st) \<longleftrightarrow>
         (\<exists>k t. (k, Some t) \<in> set (nextPageTokens (loadMoreResults env byToken fetch st))))"
    using loadMoreResults_with_hits[of st env byToken hits tokens fetch]
    by (auto simp: someTokenLeft_iff)
  have without_hits: "hasMoreResults st \<and> \<not> isLoadingMore st \<and>
    roundOutcome env byToken st = Some ([], tokens) \<longrightarrow>
      \<not> hasMoreResults (loadMoreResults env byToken fetch st) \<and>
      nextPageTokens (loadMoreResults env byToken fetch st) = nextPageTokens st"
    using loadMoreResults_without_hits[of st env byToken tokens fetch] by blast
  have failed: "hasMoreResults st \<and> \<not> isLoadingMore st \<and> roundOutcome env byToken st = None \<longrightarrow>
      hasMoreResults (loadMoreResults env byToken fetch st) \<and>
      nextPageTokens (loadMoreResults env byToken fetch st) = nextPageTokens st"
    using loadMoreResults_failed[of st env byToken fetch] by blast
  have blank: "isBlank q \<longrightarrow> handleTextSearch env post fetch q st = st"
    using handleTextSearch_blank[of q env post fetch st] by blast
  have data: "\<not> isBlank q \<and> post q = Returns (Some r) \<and> respData r = Some results \<longrightarrow>
      hasMoreResults (handleTextSearch env post fetch q st) =
        (case hasMore r of
           Some b \<Rightarrow> b
         | None \<Rightarrow>
             length results \<ge> 24 \<and>
             (length (filter (\<lambda>x. Some (index_id x) = brandIndexId env) results) = 24 \<or>
              length (filter (\<lambda>x. Some (index_id x) \<noteq> brandIndexId env \<and>
                                   Some (index_id x) = creatorIndexId env) results) = 24)) \<and>
      nextPageTokens (handleTextSearch env post fetch q st) =
        (case respNextPageTokens r of None \<Rightarrow> [] | Some t \<Rightarrow> t)"
    using handleTextSearch_hasMore[of q post r results env fetch st] by blast
  have no_data: "\<not> isBlank q \<and>
    (post q = Returns None \<or> (post q = Returns (Some r) \<and> respData r = None)) \<longrightarrow>
      \<not> hasMoreResults (handleTextSearch env post fetch q st) \<and>
      nextPageTokens (handleTextSearch env post fetch q st) = nextPageTokens st"
    using handleTextSearch_no_data[of q post r env fetch st] by blast
  have search_failed: "\<not> isBlank q \<and> post q = Throws \<longrightarrow>
      hasMoreResults (handleTextSearch env post fetch q st) = hasMoreResults st \<and>
      nextPageTokens (handleTextSearch env post fetch q st) = nextPageTokens st"
    using handleTextSearch_failed[of q post env fetch st] by blast
  show ?thesis
    using idle with_hits without_hits failed blank data no_data search_failed
          applyCropAndSearch_flag[of env postImage fetch img st]
    by blast
qed

theorem hasMoreResults_after_round_witness:
  "\<not> hasMoreResults freshSession \<and>
   hasMoreResults sampleSession \<and> \<not> isLoadingMore sampleSession \<and>
   roundOutcome sampleEnv (lastPage [mkHit ''v1'' 10 20 ''high'' 0.8 ''brand'']) sampleSession =
     Some ([mkHit ''v1'' 10 20 ''high'' 0.8 ''brand''], [(''brand'', None), (''creator'', None)]) \<and>
   roundOutcome sampleEnv (lastPage []) sampleSession =
     Some ([], [(''brand'', None), (''creator'', None)]) \<and>
   roundOutcome sampleEnv failingPage sampleSession = None \<and>
   isBlank blankQuery \<and> \<not> isBlank sampleQuery \<and>
   replyWith sampleReply sampleQuery = Returns (Some sampleReply) \<and>
   respData sampleReply = Some [mkHit ''v0'' 0 5 ''high'' 0.9 ''brand''] \<and>
   replyWith emptyReply sampleQuery = Returns (Some emptyReply) \<and>
   respData emptyReply = None \<and>
   failingSearch sampleQuery = Throws \<and>
   loadMoreResults sampleEnv (lastPage []) noDetails freshSession = freshSession \<and>
   nextPageTokens (loadMoreResults sampleEnv (lastPage [mkHit ''v1'' 10 20 ''high'' 0.8 ''brand''])
      noDetails sampleSession) = [(''brand'', None), (''creator'', None)] \<and>
   \<not> hasMoreResults (loadMoreResults sampleEnv (lastPage [mkHit ''v1'' 10 20 ''high'' 0.8 ''brand''])
      noDetails sampleSession) \<and>
   \<not> hasMoreResults (loadMoreResults sampleEnv (lastPage []) noDetails sampleSession) \<and>
   hasMoreResults (loadMoreResults sampleEnv failingPage noDetails sampleSession) \<and>
   handleTextSearch sampleEnv (replyWith sampleReply) noDetails blankQuery sampleSession =
     sampleSession \<and>
   hasMoreResults (handleTextSearch sampleEnv (replyWith sampleReply) noDetails
      sampleQuery freshSession) \<and>
   nextPageTokens (handleTextSearch sampleEnv (replyWith sampleReply) noDetails
      sampleQuery freshSession) = [(''brand'', Some ''tA1''), (''creator'', None)] \<and>
   \<not> hasMoreResults (handleTextSearch sampleEnv (replyWith emptyReply) noDetails
      sampleQuery sampleSession) \<and>
   hasMoreResults (handleTextSearch sampleEnv failingSearch noDetails sampleQuery sampleSession) \<and>
   nextPageTokens (applyCropAndSearch sampleEnv (replyWith sampleReply) noDetails (Some ())
      sampleSession) = []"
proof -
  have fresh_flag: "\<not> hasMoreResults freshSession"
    by (simp add: freshSession_def)
  then have idle: "\<not> hasMoreResults freshSession \<or> isLoadingMore freshSession"
    by simp
  have pre: "hasMoreResults sampleSession \<and> \<not> isLoadingMore sampleSession"
    by (simp add: sampleSession_def)
  have roundA: "roundOutcome sampleEnv (lastPage [mkHit ''v1'' 10 20 ''high'' 0.8 ''brand''])
      sampleSession =
     Some ([mkHit ''v1'' 10 20 ''high'' 0.8 ''brand''], [(''brand'', None), (''creator'', None)])"
    by (simp add: roundOutcome_def session_eval)
  have roundB: "roundOutcome sampleEnv (lastPage []) sampleSession =
     Some ([], [(''brand'', None), (''creator'', None)])"
    by (simp add: roundOutcome_def session_eval)
  have roundC: "roundOutcome sampleEnv failingPage sampleSession = None"
    by (simp add: roundOutcome_def failingPage_def session_eval)
  have blank: "isBlank blankQuery"
    by (simp add: isBlank_def isWhiteSpace_def blankQuery_def)
  have q: "\<not> isBlank sampleQuery"
    by (simp add: isBlank_def isWhiteSpace_def sampleQuery_def)
  have reply: "replyWith sampleReply sampleQuery = Returns (Some sampleReply) \<and>
     respData sampleReply = Some [mkHit ''v0'' 0 5 ''high'' 0.9 ''brand''] \<and>
     hasMore sampleReply = Some True \<and>
     respNextPageTokens sampleReply = Some [(''brand'', Some ''tA1''), (''creator'', None)]"
    by (simp add: sampleReply_def replyWith_def)
  have empty: "replyWith emptyReply sampleQuery = Returns (Some emptyReply) \<and>
     respData emptyReply = None"
    by (simp add: emptyReply_def replyWith_def)
  have throws: "failingSearch sampleQuery = Throws"
    by (simp add: failingSearch_def)
  note fresh = hasMoreResults_after_round[where st=freshSession and env=sampleEnv
        and byToken="lastPage []" and fetch=noDetails and hits="[]" and tokens="[]"
        and q=sampleQuery and post="replyWith sampleReply" and r=sampleReply
        and results="[mkHit ''v0'' 0 5 ''high'' 0.9 ''brand'']"
        and postImage="replyWith sampleReply" and img="()"]
  note page = hasMoreResults_after_round[where st=sampleSession and env=sampleEnv
        and byToken="lastPage [mkHit ''v1'' 10 20 ''high'' 0.8 ''brand'']" and fetch=noDetails
        and hits="[mkHit ''v1'' 10 20 ''high'' 0.8 ''brand'']"
        and tokens="[(''brand'', None), (''creator'', None)]"
        and q=blankQuery and post="replyWith sampleReply" and r=sampleReply
        and results="[]"
        and postImage="replyWith sampleReply" and img="()"]
  note emptyPage = hasMoreResults_after_round[where st=sampleSession and env=sampleEnv
        and byToken="lastPage []" and fetch=noDetails
        and hits="[]" and tokens="[(''brand'', None), (''creator'', None)]"
        and q=sampleQuery and post="replyWith emptyReply" and r=emptyReply
        and results="[]"
        and postImage="replyWith sampleReply" and img="()"]
  note failing = hasMoreResults_after_round[where st=sampleSession and env=sampleEnv
        and byToken=failingPage and fetch=noDetails
        and hits="[]" and tokens="[]"
        and q=sampleQuery and post=failingSearch and r=emptyReply
        and results="[]"
        and postImage="replyWith sampleReply" and img="()"]
  have L1: "loadMoreResults sampleEnv (lastPage []) noDetails freshSession = freshSession"
    using idle fresh by blast
  have L2: "nextPageTokens (loadMoreResults sampleEnv (lastPage [mkHit ''v1'' 10 20 ''high'' 0.8 ''brand''])
      noDetails sampleSession) = [(''brand'', None), (''creator'', None)]"
    using pre roundA page by blast
  have L2b: "\<not> hasMoreResults (loadMoreResults sampleEnv (lastPage [mkHit ''v1'' 10 20 ''high'' 0.8 ''brand''])
      noDetails sampleSession)"
  proof -
    have "hasMoreResults (loadMoreResults sampleEnv (lastPage [mkHit ''v1'' 10 20 ''high'' 0.8 ''brand''])
      noDetails sampleSession) \<longleftrightarrow>
         (\<exists>k t. (k, Some t) \<in> set (nextPageTokens (loadMoreResults sampleEnv
            (lastPage [mkHit ''v1'' 10 20 ''high'' 0.8 ''brand'']) noDetails sampleSession)))"
      using pre roundA page by blast
    then show ?thesis unfolding L2 by simp
  qed
  have L3: "\<not> hasMoreResults (loadMoreResults sampleEnv (lastPage []) noDetails sampleSession)"
    using pre roundB emptyPage by blast
  have L4: "hasMoreResults (loadMoreResults sampleEnv failingPage noDetails sampleSession)"
    using pre roundC failing by blast
  have T0: "handleTextSearch sampleEnv (replyWith sampleReply) noDetails blankQuery sampleSession =
     sampleSession"
    using blank page by blast
  have T1: "hasMoreResults (handleTextSearch sampleEnv (replyWith sampleReply) noDetails
      sampleQuery freshSession) =
        (case hasMore sampleReply of
           Some b \<Rightarrow> b
         | None \<Rightarrow>
             length [mkHit ''v0'' 0 5 ''high'' 0.9 ''brand''] \<ge> 24 \<and>
             (length (filter (\<lambda>x. Some (index_id x) = brandIndexId sampleEnv) [mkHit ''v0'' 0 5 ''high'' 0.9 ''brand'']) = 24 \<or>
              length (filter (\<lambda>x. Some (index_id x) \<noteq> brandIndexId sampleEnv \<and>
                                   Some (index_id x) = creatorIndexId sampleEnv) [mkHit ''v0'' 0 5 ''high'' 0.9 ''brand'']) = 24)) \<and>
      nextPageTokens (handleTextSearch sampleEnv (replyWith sampleReply) noDetails sampleQuery freshSession) =
        (case respNextPageTokens sampleReply of None \<Rightarrow> [] | Some t \<Rightarrow> t)"
    using q reply fresh by blast
  have T2: "\<not> hasMoreResults (handleTextSearch sampleEnv (replyWith emptyReply) noDetails
      sampleQuery sampleSession)"
    using q empty emptyPage by blast
  have T3: "hasMoreResults (handleTextSearch sampleEnv failingSearch noDetails sampleQuery
      sampleSession) = hasMoreResults sampleSession"
    using q throws failing by blast
  have I1: "nextPageTokens (applyCropAndSearch sampleEnv (replyWith sampleReply) noDetails (Some ())
      sampleSession) = []"
    using page by blast
  show ?thesis
    using fresh_flag pre roundA roundB roundC blank q reply empty throws
          L1 L2 L2b L3 L4 T0 T1 T2 T3 I1
    by simp
qed

subsection \<open>The filtered view\<close>

lemma filter_all_formats: "filter (\<lambda>f. f = vertical \<or> f = horizontal) fs = fs"
proof -
  have "\<And>f. f = vertical \<or> f = horizontal" by (case_tac f) auto
  then show ?thesis by simp
qed

lemmas view_eval = filteredResults_def arrayFilter_def arraySort_def readArray_def Let_def

lemma viewOf_matchesFormat:
  assumes "activeFilters \<noteq> []" "x \<in> set (viewOf env af activeFilters r store)"
  shows "matchesFormat activeFilters x"
  using assms
  by (auto simp: viewOf_def view_eval filter_all_formats set_sortBy nth_append
           split: if_splits prod.splits)

lemma filteredResults_frame:
  assumes "af \<noteq> All \<or> activeFilters \<noteq> []" "r < length store"
  shows "enhancedResultsAfter env af activeFilters r store = readArray store r"
  using assms
  by (auto simp: enhancedResultsAfter_def view_eval filter_all_formats nth_append
           split: if_splits prod.splits)

text \<open>
  C8, at an input where the claim and the code part: the state holds a low-confidence hit
  before a high-confidence one, the partition selector is \<open>all\<close> and no format is selected.
  No \<^verbatim>\<open>filter\<close> runs, so \<open>results\<close> is the state's own array, and the final \<^verbatim>\<open>sort\<close> reorders
  that array in place: the view is the cell \<open>0\<close> itself, and the state's list has changed
  its order. With a selector or a format chosen the state is left alone
  (\<open>filteredResults_frame\<close>).
\<close>

theorem filteredResults_sorts_state_in_place:
  "filteredResults sampleEnv All [] 0
     [[mkHit ''v1'' 0 5 ''low'' 0.9 ''brand'', mkHit ''v2'' 0 5 ''high'' 0.4 ''creator'']] =
     (0, [[mkHit ''v2'' 0 5 ''high'' 0.4 ''creator'', mkHit ''v1'' 0 5 ''low'' 0.9 ''brand'']]) \<and>
   enhancedResultsAfter sampleEnv All [] 0
     [[mkHit ''v1'' 0 5 ''low'' 0.9 ''brand'', mkHit ''v2'' 0 5 ''high'' 0.4 ''creator'']] =
     [mkHit ''v2'' 0 5 ''high'' 0.4 ''creator'', mkHit ''v1'' 0 5 ''low'' 0.9 ''brand'']"
  by (simp add: enhancedResultsAfter_def view_eval compareHits_def getConfidencePriority_def
      toLowerCase_def toLowerChar_def mkHit_def orZero_def)

text \<open>
  C9 as stated fails on dimensions \<open>(0, 0)\<close>: the width is at least the height, yet the
  guard \<^verbatim>\<open>width && height\<close> is false on a zero and the hit gets no format.
\<close>

theorem formatOf_zero_dimensions_counterexample:
  "(0::real) \<ge> 0 \<and> formatOf (mkDetails 0 0) \<noteq> Some horizontal"
  by (simp add: formatOf_def mkDetails_def truthyNum_def)

text \<open>
  C9 as amended: when the width and the height are both present and non-zero, the format is
  horizontal iff the width is at least the height (a tie is horizontal) and vertical
  otherwise; when either is missing or zero, or the details have no dimensions at all, there
  is no format; a hit whose details were fetched carries the format of these details; a hit
  without a format is in no view computed under a non-empty format filter; and
  \<open>(1920, 1080)\<close> is horizontal, \<open>(1080, 1920)\<close> vertical, \<open>(1000, 1000)\<close> horizontal.
\<close>

theorem formatOf_dimensions:
  "(w \<noteq> 0 \<and> h \<noteq> 0 \<longrightarrow>
      formatOf (mkDetails w h) = Some (if w \<ge> h then horizontal else vertical)) \<and>
   (wo = None \<or> wo = Some 0 \<or> ho = None \<or> ho = Some 0 \<longrightarrow>
      formatOf \<lparr>system_metadata = Some \<lparr>width = wo, height = ho\<rparr>\<rparr> = None) \<and>
   formatOf \<lparr>system_metadata = None\<rparr> = None \<and>
   (fetch (video_id result) (index_id result) = Some details \<longrightarrow>
      format (withDetails fetch result) = formatOf details) \<and>
   (activeFilters \<noteq> [] \<and> format hit = None \<longrightarrow>
      hit \<notin> set (viewOf env activeFilter activeFilters r store)) \<and>
   formatOf (mkDetails 1920 1080) = Some horizontal \<and>
   formatOf (mkDetails 1080 1920) = Some vertical \<and>
   formatOf (mkDetails 1000 1000) = Some horizontal"
proof -
  have "activeFilters \<noteq> [] \<and> format hit = None \<longrightarrow>
      hit \<notin> set (viewOf env activeFilter activeFilters r store)"
    using viewOf_matchesFormat[of activeFilters hit env activeFilter r store]
    by (auto simp: matchesFormat_def)
  moreover have "wo = None \<or> wo = Some 0 \<or> ho = None \<or> ho = Some 0 \<longrightarrow>
      formatOf \<lparr>system_metadata = Some \<lparr>width = wo, height = ho\<rparr>\<rparr> = None"
    by (auto simp: formatOf_def truthyNum_def split: option.splits)
  ultimately show ?thesis
    by (simp add: formatOf_def mkDetails_def truthyNum_def withDetails_def)
qed

theorem formatOf_dimensions_witness:
  "(1920::real) \<noteq> 0 \<and> (1080::real) \<noteq> 0 \<and>
   formatOf (mkDetails 1920 1080) = Some horizontal \<and>
   formatOf \<lparr>system_metadata = Some \<lparr>width = None, height = Some 1080\<rparr>\<rparr> = None \<and>
   (\<lambda>v i. Some (mkDetails 1080 1920)) (video_id (mkHit ''v1'' 0 5 ''high'' 0.9 ''brand''))
      (index_id (mkHit ''v1'' 0 5 ''high'' 0.9 ''brand'')) = Some (mkDetails 1080 1920) \<and>
   format (withDetails (\<lambda>v i. Some (mkDetails 1080 1920)) (mkHit ''v1'' 0 5 ''high'' 0.9 ''brand'')) =
     formatOf (mkDetails 1080 1920) \<and>
   [vertical] \<noteq> [] \<and> format (mkHit ''v1'' 0 5 ''high'' 0.9 ''brand'') = None \<and>
   mkHit ''v1'' 0 5 ''high'' 0.9 ''brand''
     \<notin> set (viewOf sampleEnv All [vertical] 0 [[mkHit ''v1'' 0 5 ''high'' 0.9 ''brand'']])"
proof -
  have f: "format (mkHit ''v1'' 0 5 ''high'' 0.9 ''brand'') = None"
    by (simp add: mkHit_def)
  show ?thesis
    using f
      formatOf_dimensions[where w=1920 and h=1080 and wo=None and ho="Some 1080"
        and fetch="\<lambda>v i. Some (mkDetails 1080 1920)"
        and result="mkHit ''v1'' 0 5 ''high'' 0.9 ''brand''"
        and details="mkDetails 1080 1920"
        and activeFilters="[vertical]" and hit="mkHit ''v1'' 0 5 ''high'' 0.9 ''brand''"
        and env=sampleEnv and activeFilter=All and r=0
        and store="[[mkHit ''v1'' 0 5 ''high'' 0.9 ''brand'']]"]
    by simp
qed

end
